theory Spec2Isabelle
  imports Main "HOL-Library.Char_ord" "HOL-Library.List_Lexorder"
begin

section \<open>The room directory of backend/routes/api/rooms.js\<close>

text \<open>
  The file \<^verbatim>\<open>backend/routes/api/rooms.js\<close> holds two versions of the same router:
  \<^item> the \<^emph>\<open>aggregate-cache variant\<close> (lines 1-347): every listing goes through one
    cache entry per query signature, written through the \<^verbatim>\<open>redisClient\<close> wrapper;
  \<^item> the \<^emph>\<open>split-cache variant\<close> (lines 348-673): a sorted set of room identifiers
    \<^verbatim>\<open>chat:rooms:ids\<close> and one detail entry \<^verbatim>\<open>chat:room:<id>\<close> per room.

  Handlers are modelled as functions from an environment, a request and a world to a
  response and a new world. The world holds the Primary Store (MongoDB), the Redis
  contents and the trace of every call issued to a collaborator. An \<^verbatim>\<open>await\<close> that
  may reject is a branch on the environment's failure oracle; the surrounding
  \<^verbatim>\<open>try/catch\<close> is the branch taken when it rejects.

  A JavaScript string is modelled over the code units below 256 (type \<^typ>\<open>char\<close>);
  numbers are modelled as exact integers (they agree with JavaScript's doubles up to
  \<open>2^53\<close>); an ObjectId is its hexadecimal string; a date is its millisecond time stamp.
\<close>

subsection \<open>JavaScript built-ins used by the handlers\<close>

text \<open>White space as \<^verbatim>\<open>String.prototype.trim\<close> and \<^verbatim>\<open>parseInt\<close> see it, among the code units
  below 256: TAB, LF, VT, FF, CR, SP and NBSP.\<close>

definition is_ws :: "char \<Rightarrow> bool" where
  "is_ws c = (of_char c \<in> {9, 10, 11, 12, 13, 32, 160 :: nat})"

definition trim :: "string \<Rightarrow> string" where
  "trim s = rev (dropWhile is_ws (rev (dropWhile is_ws s)))"

text \<open>The value of a digit in radix up to 36, as \<^verbatim>\<open>parseInt\<close> reads it.\<close>

definition digit_val :: "char \<Rightarrow> nat option" where
  "digit_val c =
     (let n = (of_char c :: nat) in
      if 48 \<le> n \<and> n \<le> 57 then Some (n - 48)
      else if 97 \<le> n \<and> n \<le> 122 then Some (n - 87)
      else if 65 \<le> n \<and> n \<le> 90 then Some (n - 55)
      else None)"

definition is_digit :: "nat \<Rightarrow> char \<Rightarrow> bool" where
  "is_digit radix c = (case digit_val c of None \<Rightarrow> False | Some d \<Rightarrow> d < radix)"

definition digits_value :: "nat \<Rightarrow> string \<Rightarrow> nat" where
  "digits_value radix ds =
     foldl (\<lambda>acc c. case digit_val c of None \<Rightarrow> acc | Some d \<Rightarrow> acc * radix + d) 0 ds"

text \<open>\<^verbatim>\<open>parseInt(s)\<close> with no radix argument: leading white space is skipped, a sign is
  read, a prefix \<^verbatim>\<open>0x\<close> or \<^verbatim>\<open>0X\<close> selects radix 16, the longest run of digits is the
  value, and no digit at all is \<^verbatim>\<open>NaN\<close> (\<open>None\<close>).\<close>

definition parseInt :: "string \<Rightarrow> int option" where
  "parseInt s =
     (let s1 = dropWhile is_ws s;
          neg = (case s1 of [] \<Rightarrow> False | c # _ \<Rightarrow> c = CHR ''-'');
          s2 = (case s1 of [] \<Rightarrow> [] | c # r \<Rightarrow> if c = CHR ''-'' \<or> c = CHR ''+'' then r else s1);
          hex = (case s2 of a # b # _ \<Rightarrow> a = CHR ''0'' \<and> (b = CHR ''x'' \<or> b = CHR ''X'') | _ \<Rightarrow> False);
          radix = (if hex then 16 else 10);
          s3 = (if hex then drop 2 s2 else s2);
          ds = takeWhile (is_digit radix) s3
      in if ds = [] then None
         else Some (if neg then - int (digits_value radix ds) else int (digits_value radix ds)))"

text \<open>\<^verbatim>\<open>parseInt(x) || d\<close> on a query parameter: an absent parameter parses to \<^verbatim>\<open>NaN\<close>,
  and both \<^verbatim>\<open>NaN\<close> and \<open>0\<close> are falsy, so both give the default.\<close>

definition parse_or :: "string option \<Rightarrow> int \<Rightarrow> int" where
  "parse_or x d =
     (case x of None \<Rightarrow> d
      | Some s \<Rightarrow> (case parseInt s of None \<Rightarrow> d | Some n \<Rightarrow> if n = 0 then d else n))"

text \<open>\<^verbatim>\<open>x || ''\<close> on a string that may be absent.\<close>

definition str_or_empty :: "string option \<Rightarrow> string" where
  "str_or_empty x = (case x of None \<Rightarrow> [] | Some s \<Rightarrow> s)"

text \<open>The decimal representation of a non-negative integer, as a template string
  prints it.\<close>

fun digits_of :: "nat \<Rightarrow> string" where
  "digits_of n =
     (if n < 10 then [char_of (48 + n)]
      else digits_of (n div 10) @ [char_of (48 + n mod 10)])"

declare digits_of.simps [simp del]

definition show_int :: "int \<Rightarrow> string" where
  "show_int i = (if i < 0 then CHR ''-'' # digits_of (nat (- i)) else digits_of (nat i))"

text \<open>\<^verbatim>\<open>Math.ceil(a / b)\<close> for a count \<open>a\<close> and a page size \<open>b \<ge> 1\<close>.\<close>

definition ceil_div :: "int \<Rightarrow> int \<Rightarrow> int" where
  "ceil_div a b = - ((- a) div b)"

subsection \<open>Query parameters of a listing request\<close>

text \<open>\<^verbatim>\<open>req.query\<close>: each parameter is a string or absent. (A parameter given several
  times, which Express parses to an array, is outside the model.)\<close>

record query =
  q_page :: "string option"
  q_pageSize :: "string option"
  q_sortField :: "string option"
  q_sortOrder :: "string option"
  q_search :: "string option"

text \<open>rooms.js lines 80-86 (and 444-446, which read \<open>page\<close>, \<open>pageSize\<close> and
  \<open>search\<close> only).\<close>

definition norm_page :: "query \<Rightarrow> int" where
  "norm_page q = max 0 (parse_or (q_page q) 0)"

definition norm_pageSize :: "query \<Rightarrow> int" where
  "norm_pageSize q = min (max 1 (parse_or (q_pageSize q) 10)) 50"

definition norm_sortField :: "query \<Rightarrow> string" where
  "norm_sortField q =
     (case q_sortField q of None \<Rightarrow> ''createdAt''
      | Some f \<Rightarrow> if f \<in> set [''createdAt'', ''name'', ''participantsCount''] then f
                  else ''createdAt'')"

definition norm_sortOrder :: "query \<Rightarrow> string" where
  "norm_sortOrder q =
     (case q_sortOrder q of None \<Rightarrow> ''desc''
      | Some f \<Rightarrow> if f \<in> set [''asc'', ''desc''] then f else ''desc'')"

definition norm_search :: "query \<Rightarrow> string" where
  "norm_search q = str_or_empty (q_search q)"

subsection \<open>Documents of the Primary Store\<close>

type_synonym oid = string

record user =
  user_id :: oid
  user_name :: string
  user_email :: string

text \<open>A room document. The creator and the participants are references: identifiers
  in the store, user documents once a query has populated them. The type parameters
  say which.\<close>

record ('c, 'p) room_rec =
  room_id :: oid
  room_name :: string
  creator :: 'c
  participants :: "'p list"
  password :: "string option"
  hasPassword :: bool
  createdAt :: int

type_synonym room = "(oid, oid) room_rec"

text \<open>A detail entry is the JSON text of a room document. Two shapes are written: the
  listing writes a document whose participants are identifiers (rooms.js line 463), the
  creation one whose participants are populated (line 550). A participant of a
  cached document is therefore either.\<close>

datatype participant = Unpopulated oid | PopulatedUser user

type_synonym cached_room = "(user option, participant) room_rec"

definition find_user :: "oid \<Rightarrow> user list \<Rightarrow> user option" where
  "find_user i us = find (\<lambda>u. user_id u = i) us"

definition find_room :: "oid \<Rightarrow> room list \<Rightarrow> room option" where
  "find_room i rs = find (\<lambda>r. room_id r = i) rs"

text \<open>\<^verbatim>\<open>.populate('creator', 'name email')\<close>: the creator's document or \<^verbatim>\<open>null\<close>.\<close>

definition populate_creator :: "user list \<Rightarrow> (oid, 'p) room_rec \<Rightarrow> (user option, 'p) room_rec" where
  "populate_creator us r =
     \<lparr>room_id = room_id r, room_name = room_name r, creator = find_user (creator r) us,
      participants = participants r, password = password r, hasPassword = hasPassword r,
      createdAt = createdAt r\<rparr>"

text \<open>\<^verbatim>\<open>.populate('participants', 'name email')\<close>: the documents of the participants
  that exist.\<close>

definition populate_participants :: "user list \<Rightarrow> ('c, oid) room_rec \<Rightarrow> ('c, user) room_rec" where
  "populate_participants us r =
     \<lparr>room_id = room_id r, room_name = room_name r, creator = creator r,
      participants = List.map_filter (\<lambda>i. find_user i us) (participants r),
      password = password r, hasPassword = hasPassword r, createdAt = createdAt r\<rparr>"

text \<open>\<^verbatim>\<open>{ ...room, password: undefined }\<close>: a property whose value is \<^verbatim>\<open>undefined\<close> is
  left out of the JSON text that is sent, so the record goes out with no password
  field.\<close>

definition strip_password :: "('c, 'p) room_rec \<Rightarrow> ('c, 'p) room_rec" where
  "strip_password r = r\<lparr>password := None\<rparr>"

text \<open>The projection of a query that does not ask for the password. The join handler
  asks for it with \<^verbatim>\<open>.select('+password')\<close>; whether the schema of models/Room.js (not
  part of the sources) hides it otherwise is the parameter \<open>hide\<close>.\<close>

definition default_projection :: "bool \<Rightarrow> ('c, 'p) room_rec \<Rightarrow> ('c, 'p) room_rec" where
  "default_projection hide r = (if hide then r\<lparr>password := None\<rparr> else r)"

subsection \<open>Responses\<close>

record page_meta =
  total :: int
  page :: int
  pageSize :: int
  totalPages :: int
  hasMore :: bool
  currentCount :: int
  sort_field :: string
  sort_order :: string

record room_summary =
  s_id :: string
  s_name :: string
  s_hasPassword :: bool
  s_creator_id :: string
  s_creator_name :: string
  s_creator_email :: string
  s_participantsCount :: int
  s_createdAt :: int
  s_isCreator :: bool

record 'a listing =
  rows :: "'a list"
  metadata :: page_meta

datatype response =
    ListA "room_summary listing"
  | ListB "cached_room listing"
  | Created "(user option, user) room_rec"
  | Joined "(oid, user) room_rec"
  | NameRequired
  | PasswordRequired
  | PasswordMismatch
  | RoomNotFound
  | RoomsFetchError
  | ServerError

fun status :: "response \<Rightarrow> nat" where
  "status (ListA _) = 200"
| "status (ListB _) = 200"
| "status (Created _) = 201"
| "status (Joined _) = 200"
| "status NameRequired = 400"
| "status PasswordRequired = 400"
| "status PasswordMismatch = 401"
| "status RoomNotFound = 404"
| "status RoomsFetchError = 500"
| "status ServerError = 500"

subsection \<open>Collaborators: the store, Redis, the socket server, the console\<close>

datatype redis_cmd =
    RConnect
  | RGet string
  | RSet string nat
  | RDel string
  | RZRevRange string int int
  | RZAdd string int string
  | RZCard string

datatype db_cmd =
    DCount string
  | DAggregate string string string int int
  | DFind string int int
  | DFindById oid
  | DSave oid
  | DPopulate oid

text \<open>The labels of the \<^verbatim>\<open>console.error\<close> calls of the router.\<close>

datatype log_tag =
    RedisGetError
  | RedisSetError
  | RedisDelError
  | RoomsFetchFailed
  | RoomCreateFailed
  | RoomJoinFailed

datatype event =
    Redis redis_cmd
  | Db db_cmd
  | EmitCreated string "(user option, user) room_rec"
  | EmitUpdate string "(oid, user) room_rec"
  | LogError log_tag

text \<open>The world. Redis is one key space; the three families of keys the router uses
  have disjoint prefixes (\<^verbatim>\<open>chat:rooms:list:\<close>, \<^verbatim>\<open>chat:room:\<close>, and the one key
  \<^verbatim>\<open>chat:rooms:ids\<close>) and hold values of different shapes, so each family is a field.
  String entries carry their time to live in seconds; the passing of time is not
  modelled, an entry stays until it is deleted or overwritten.\<close>

record world =
  rooms :: "room list"
  users :: "user list"
  pages :: "string \<rightharpoonup> (room_summary listing \<times> nat)"
  details :: "string \<rightharpoonup> (cached_room \<times> nat)"
  ids_index :: "(oid \<times> int) list"
  trace :: "event list"

text \<open>What the runtime decides: whether \<^verbatim>\<open>initializeSocket\<close> has run, which calls to
  Redis and to the store reject, the identifier and the time stamp the store gives to
  the next document, and the parts of models/Room.js the router relies on.\<close>

record env =
  io_ready :: bool
  redis_fails :: "redis_cmd \<Rightarrow> bool"
  db_fails :: "db_cmd \<Rightarrow> bool"
  fresh_id :: oid
  now :: int
  hide_password :: bool
  hash_password :: "string \<Rightarrow> string"
  check_password :: "string option \<Rightarrow> string \<Rightarrow> bool"

definition call :: "event \<Rightarrow> world \<Rightarrow> world" where
  "call ev w = w\<lparr>trace := trace w @ [ev]\<rparr>"

subsection \<open>Queries on the store\<close>

text \<open>Modelled from the spec: MongoDB's \<^verbatim>\<open>{ $regex: search, $options: 'i' }\<close> is not part
  of the sources; the spec describes the filter as a case-insensitive substring match
  against the room name.\<close>

definition to_lower :: "char \<Rightarrow> char" where
  "to_lower c =
     (let n = (of_char c :: nat) in if 65 \<le> n \<and> n \<le> 90 then char_of (n + 32) else c)"

fun starts_with :: "string \<Rightarrow> string \<Rightarrow> bool" where
  "starts_with [] s = True"
| "starts_with (p # ps) [] = False"
| "starts_with (p # ps) (c # cs) = (p = c \<and> starts_with ps cs)"

fun contains :: "string \<Rightarrow> string \<Rightarrow> bool" where
  "contains p [] = (p = [])"
| "contains p (c # cs) = (starts_with p (c # cs) \<or> contains p cs)"

definition name_matches :: "string \<Rightarrow> string \<Rightarrow> bool" where
  "name_matches search nm = contains (map to_lower search) (map to_lower nm)"

text \<open>\<^verbatim>\<open>const filter = {}; if (search) filter.name = ...\<close>\<close>

definition matching :: "string \<Rightarrow> ('c, 'p) room_rec list \<Rightarrow> ('c, 'p) room_rec list" where
  "matching search rs =
     (if search = [] then rs else filter (\<lambda>r. name_matches search (room_name r)) rs)"

text \<open>A stable insertion sort by a comparison. MongoDB leaves the order of documents
  with equal sort keys open; the model keeps them in the order of the collection.\<close>

fun insert_by :: "('a \<Rightarrow> 'a \<Rightarrow> bool) \<Rightarrow> 'a \<Rightarrow> 'a list \<Rightarrow> 'a list" where
  "insert_by le x [] = [x]"
| "insert_by le x (y # ys) = (if le x y then x # y # ys else y # insert_by le x ys)"

definition sort_by :: "('a \<Rightarrow> 'a \<Rightarrow> bool) \<Rightarrow> 'a list \<Rightarrow> 'a list" where
  "sort_by le xs = foldr (insert_by le) xs []"

text \<open>\<^verbatim>\<open>{ $sort: { [sortField]: sortOrder === 'desc' ? -1 : 1 } }\<close> (line 112). The stage
  runs before \<^verbatim>\<open>$addFields\<close> computes \<^verbatim>\<open>participantsCount\<close> (line 115), so a sort by
  that field finds it on no document and all keys are equal.\<close>

definition sort_stage :: "string \<Rightarrow> string \<Rightarrow> room list \<Rightarrow> room list" where
  "sort_stage field ord rs =
     (if field = ''createdAt'' then
        sort_by (\<lambda>a b. if ord = ''desc'' then createdAt b \<le> createdAt a
                        else createdAt a \<le> createdAt b) rs
      else if field = ''name'' then
        sort_by (\<lambda>a b. if ord = ''desc'' then room_name b \<le> room_name a
                        else room_name a \<le> room_name b) rs
      else rs)"

text \<open>\<^verbatim>\<open>$match, $sort, $skip, $limit\<close> of the pipeline of lines 110-137.\<close>

definition aggregate_rooms :: "string \<Rightarrow> string \<Rightarrow> string \<Rightarrow> int \<Rightarrow> int \<Rightarrow> room list \<Rightarrow> room list" where
  "aggregate_rooms search field ord skip limit rs =
     take (nat limit) (drop (nat skip) (sort_stage field ord (matching search rs)))"

subsection \<open>Aggregate-cache variant: listing (lines 77-193)\<close>

definition cache_key :: "int \<Rightarrow> int \<Rightarrow> string \<Rightarrow> string \<Rightarrow> string \<Rightarrow> string" where
  "cache_key pg sz field ord search =
     ''chat:rooms:list:page='' @ show_int pg @ '':size='' @ show_int sz @ '':sort='' @ field
       @ '':'' @ ord @ '':search='' @ search"

text \<open>The placeholders of lines 141 and 145, as their UTF-8 bytes.\<close>

definition no_title :: string where
  "no_title = map char_of [236, 160, 156, 235, 170, 169, 32, 236, 151, 134, 236, 157, 140 :: nat]"

definition unknown_name :: string where
  "unknown_name =
     map char_of [236, 149, 140, 32, 236, 136, 152, 32, 236, 151, 134, 236, 157, 140 :: nat]"

text \<open>\<^verbatim>\<open>s || d\<close> on a string: the empty string is falsy.\<close>

definition or_str :: "string \<Rightarrow> string \<Rightarrow> string" where
  "or_str s d = (if s = [] then d else s)"

text \<open>One element of \<^verbatim>\<open>safeRooms\<close> (lines 139-151), from a room of the pipeline and the
  result of its \<^verbatim>\<open>$lookup\<close> of the creator. \<open>uid\<close> is \<^verbatim>\<open>req.user.id\<close>.\<close>

definition safe_room :: "oid \<Rightarrow> user list \<Rightarrow> room \<Rightarrow> room_summary" where
  "safe_room uid us r =
     (let c = find_user (creator r) us in
      \<lparr>s_id = or_str (room_id r) ''unknown'',
       s_name = or_str (room_name r) no_title,
       s_hasPassword = hasPassword r,
       s_creator_id = (case c of None \<Rightarrow> ''unknown'' | Some u \<Rightarrow> or_str (user_id u) ''unknown''),
       s_creator_name = (case c of None \<Rightarrow> unknown_name | Some u \<Rightarrow> or_str (user_name u) unknown_name),
       s_creator_email = (case c of None \<Rightarrow> [] | Some u \<Rightarrow> user_email u),
       s_participantsCount = int (length (participants r)),
       s_createdAt = createdAt r,
       s_isCreator = (case c of None \<Rightarrow> False | Some u \<Rightarrow> user_id u = uid)\<rparr>)"

definition page_meta_of :: "int \<Rightarrow> int \<Rightarrow> int \<Rightarrow> int \<Rightarrow> string \<Rightarrow> string \<Rightarrow> page_meta" where
  "page_meta_of totalCount pg sz n field ord =
     \<lparr>total = totalCount, page = pg, pageSize = sz, totalPages = ceil_div totalCount sz,
      hasMore = (pg * sz + n < totalCount), currentCount = n,
      sort_field = field, sort_order = ord\<rparr>"

text \<open>Lines 102-171: the page computed from the store.\<close>

definition compute_page_A :: "oid \<Rightarrow> query \<Rightarrow> world \<Rightarrow> room_summary listing" where
  "compute_page_A uid q w =
     (let pg = norm_page q; sz = norm_pageSize q; field = norm_sortField q;
          ord = norm_sortOrder q; search = norm_search q;
          totalCount = int (length (matching search (rooms w)));
          found = aggregate_rooms search field ord (pg * sz) sz (rooms w);
          safeRooms = map (safe_room uid (users w)) found
      in \<lparr>rows = safeRooms,
          metadata = page_meta_of totalCount pg sz (int (length found)) field ord\<rparr>)"

text \<open>Modelled from the spec: the wrapper utils/redisClient.js, whose \<^verbatim>\<open>get\<close>, \<^verbatim>\<open>set\<close> and
  \<^verbatim>\<open>del\<close> the aggregate-cache variant calls, is not part of the sources. Section 4.3 of
  the specification gives its contract: \<open>get\<close> returns the page stored under a signature
  or a miss, \<open>put\<close> stores a page with a time to live, and a deleted entry is a miss.

  Lines 92-97: \<^verbatim>\<open>redisClient.get\<close> inside its own \<^verbatim>\<open>try/catch\<close>.\<close>

definition cache_get_A :: "env \<Rightarrow> string \<Rightarrow> world \<Rightarrow> room_summary listing option \<times> world" where
  "cache_get_A e k w =
     (let w1 = call (Redis (RGet k)) w in
      if redis_fails e (RGet k) then (None, call (LogError RedisGetError) w1)
      else (map_option fst (pages w1 k), w1))"

text \<open>Lines 173-178: \<^verbatim>\<open>redisClient.set(cacheKey, responseData, { ttl: 60 })\<close> inside its
  own \<^verbatim>\<open>try/catch\<close>.\<close>

definition cache_set_A :: "env \<Rightarrow> string \<Rightarrow> room_summary listing \<Rightarrow> world \<Rightarrow> world" where
  "cache_set_A e k v w =
     (let w1 = call (Redis (RSet k 60)) w in
      if redis_fails e (RSet k 60) then call (LogError RedisSetError) w1
      else w1\<lparr>pages := (pages w1)(k \<mapsto> (v, 60))\<rparr>)"

definition list_rooms_A :: "env \<Rightarrow> oid \<Rightarrow> query \<Rightarrow> world \<Rightarrow> response \<times> world" where
  "list_rooms_A e uid q w =
     (let pg = norm_page q; sz = norm_pageSize q; field = norm_sortField q;
          ord = norm_sortOrder q; search = norm_search q;
          cacheKey = cache_key pg sz field ord search;
          (cached, w1) = cache_get_A e cacheKey w
      in case cached of
           Some p \<Rightarrow> (ListA p, w1)
         | None \<Rightarrow>
            (let w2 = call (Db (DCount search)) w1 in
             if db_fails e (DCount search)
             then (RoomsFetchError, call (LogError RoomsFetchFailed) w2)
             else
               (let cmd = DAggregate search field ord (pg * sz) sz;
                    w3 = call (Db cmd) w2 in
                if db_fails e cmd
                then (RoomsFetchError, call (LogError RoomsFetchFailed) w3)
                else
                  (let responseData = compute_page_A uid q w3;
                       w4 = cache_set_A e cacheKey responseData w3
                   in (ListA responseData, w4)))))"

subsection \<open>Creation of a room\<close>

record create_body =
  b_name :: "string option"
  b_password :: "string option"

text \<open>\<^verbatim>\<open>!name?.trim()\<close> (lines 200 and 531).\<close>

definition blank_name :: "string option \<Rightarrow> bool" where
  "blank_name n = (case n of None \<Rightarrow> True | Some s \<Rightarrow> trim s = [])"

text \<open>Modelled from the spec: models/Room.js is not part of the sources. A new room has
  a store-assigned identifier and creation time stamp, and its \<open>hasPassword\<close> flag is
  derived from the presence of a password secret. The arguments of \<^verbatim>\<open>new Room\<close> are
  those of lines 207-212.\<close>

definition new_room :: "env \<Rightarrow> oid \<Rightarrow> create_body \<Rightarrow> room" where
  "new_room e uid b =
     \<lparr>room_id = fresh_id e, room_name = trim (str_or_empty (b_name b)), creator = uid,
      participants = [uid], password = map_option (hash_password e) (b_password b),
      hasPassword = (b_password b \<noteq> None), createdAt = now e\<rparr>"

text \<open>\<^verbatim>\<open>await newRoom.save()\<close>: rejects when the store fails or the identifier exists.\<close>

definition save_new :: "env \<Rightarrow> room \<Rightarrow> world \<Rightarrow> world option" where
  "save_new e r w =
     (let w1 = call (Db (DSave (room_id r))) w in
      if db_fails e (DSave (room_id r)) \<or> find_room (room_id r) (rooms w1) \<noteq> None then None
      else Some (w1\<lparr>rooms := rooms w1 @ [r]\<rparr>))"

text \<open>\<^verbatim>\<open>Room.findById(id).populate('creator', ...).populate('participants', ...)\<close>;
  \<open>None\<close> when the query rejects, \<open>Some None\<close> when it finds no document.\<close>

definition find_populated :: "env \<Rightarrow> oid \<Rightarrow> world \<Rightarrow> (user option, user) room_rec option option" where
  "find_populated e i w =
     (if db_fails e (DFindById i) then None
      else Some (map_option
        (\<lambda>r. default_projection (hide_password e)
                (populate_participants (users w) (populate_creator (users w) r)))
        (find_room i (rooms w))))"

text \<open>Lines 228-232: one key is deleted, inside its own \<^verbatim>\<open>try/catch\<close>.\<close>

definition first_page_key :: string where
  "first_page_key = ''chat:rooms:list:page=0:size=10:sort=createdAt:desc:search=''"

definition cache_del_A :: "env \<Rightarrow> string \<Rightarrow> world \<Rightarrow> world" where
  "cache_del_A e k w =
     (let w1 = call (Redis (RDel k)) w in
      if redis_fails e (RDel k) then call (LogError RedisDelError) w1
      else w1\<lparr>pages := (pages w1)(k := None)\<rparr>)"

text \<open>Lines 196-249. A \<^verbatim>\<open>null\<close> result of \<^verbatim>\<open>findById\<close> makes \<^verbatim>\<open>populatedRoom.toObject()\<close>
  throw, which the outer \<^verbatim>\<open>catch\<close> turns into the 500 response.\<close>

definition create_room_A :: "env \<Rightarrow> oid \<Rightarrow> create_body \<Rightarrow> world \<Rightarrow> response \<times> world" where
  "create_room_A e uid b w =
     (if blank_name (b_name b) then (NameRequired, w)
      else
        (let r = new_room e uid b in
         case save_new e r w of
           None \<Rightarrow> (ServerError, call (LogError RoomCreateFailed) (call (Db (DSave (room_id r))) w))
         | Some w1 \<Rightarrow>
            (let w2 = call (Db (DFindById (room_id r))) w1 in
             case find_populated e (room_id r) w2 of
               None \<Rightarrow> (ServerError, call (LogError RoomCreateFailed) w2)
             | Some None \<Rightarrow> (ServerError, call (LogError RoomCreateFailed) w2)
             | Some (Some populatedRoom) \<Rightarrow>
                (let w3 = (if io_ready e
                           then call (EmitCreated ''room-list'' (strip_password populatedRoom)) w2
                           else w2);
                     w4 = cache_del_A e first_page_key w3
                 in (Created (strip_password populatedRoom), w4)))))"

subsection \<open>Split-cache variant: the sorted set and the detail entries\<close>

definition map_participants :: "('p \<Rightarrow> 'q) \<Rightarrow> ('c, 'p) room_rec \<Rightarrow> ('c, 'q) room_rec" where
  "map_participants f r =
     \<lparr>room_id = room_id r, room_name = room_name r, creator = creator r,
      participants = map f (participants r), password = password r,
      hasPassword = hasPassword r, createdAt = createdAt r\<rparr>"

definition ids_key :: string where
  "ids_key = ''chat:rooms:ids''"

definition detail_key :: "oid \<Rightarrow> string" where
  "detail_key i = ''chat:room:'' @ i"

text \<open>\<^verbatim>\<open>ZREVRANGE key start stop\<close>: the members from the highest score to the lowest,
  equal scores in reverse lexicographic order of the members, ranks \<open>start\<close> to \<open>stop\<close>
  inclusive; a negative rank counts from the end.\<close>

definition zrev_le :: "oid \<times> int \<Rightarrow> oid \<times> int \<Rightarrow> bool" where
  "zrev_le a b = (snd b < snd a \<or> (snd b = snd a \<and> fst b \<le> fst a))"

definition zrev_members :: "(oid \<times> int) list \<Rightarrow> oid list" where
  "zrev_members z = map fst (sort_by zrev_le z)"

definition zrevrange :: "(oid \<times> int) list \<Rightarrow> int \<Rightarrow> int \<Rightarrow> oid list" where
  "zrevrange z start stop =
     (let xs = zrev_members z; n = int (length xs);
          s = (if start < 0 then max 0 (n + start) else start);
          t = (if stop < 0 then n + stop else min stop (n - 1))
      in if t < s \<or> n \<le> s then [] else take (nat (t - s + 1)) (drop (nat s) xs))"

text \<open>\<^verbatim>\<open>ZADD key score member\<close>: adds the member or updates its score.\<close>

definition zadd :: "(oid \<times> int) list \<Rightarrow> int \<Rightarrow> oid \<Rightarrow> (oid \<times> int) list" where
  "zadd z score m = filter (\<lambda>p. fst p \<noteq> m) z @ [(m, score)]"

definition zcard :: "(oid \<times> int) list \<Rightarrow> int" where
  "zcard z = int (length z)"

subsection \<open>Split-cache variant: listing (lines 442-525)\<close>

text \<open>\<^verbatim>\<open>Room.findById(id).populate('creator', 'name email').lean()\<close>, as the detail
  cache holds it.\<close>

definition find_lean :: "env \<Rightarrow> oid \<Rightarrow> world \<Rightarrow> cached_room option" where
  "find_lean e i w =
     map_option
       (\<lambda>r. map_participants Unpopulated
               (default_projection (hide_password e) (populate_creator (users w) r)))
       (find_room i (rooms w))"

text \<open>Line 455: \<^verbatim>\<open>Promise.all(roomIds.map(id => client.get(...)))\<close>. Every \<^verbatim>\<open>GET\<close> is
  issued; the result is rejected (\<open>None\<close>) when one of them is.\<close>

definition get_details :: "env \<Rightarrow> oid list \<Rightarrow> world \<Rightarrow> cached_room option list option \<times> world" where
  "get_details e ids w =
     (let w1 = w\<lparr>trace := trace w @ map (\<lambda>i. Redis (RGet (detail_key i))) ids\<rparr> in
      if list_ex (\<lambda>i. redis_fails e (RGet (detail_key i))) ids then (None, w1)
      else (Some (map (\<lambda>i. map_option fst (details w1 (detail_key i))) ids), w1))"

text \<open>Lines 457-467: the repair loop over the identifiers and what the cache returned
  for them. \<open>None\<close> is an exception thrown out of the loop.\<close>

fun repair :: "env \<Rightarrow> (oid \<times> cached_room option) list \<Rightarrow> world \<Rightarrow> cached_room option list option \<times> world" where
  "repair e [] w = (Some [], w)"
| "repair e ((i, Some d) # xs) w =
     (case repair e xs w of
        (None, w') \<Rightarrow> (None, w')
      | (Some ds, w') \<Rightarrow> (Some (Some d # ds), w'))"
| "repair e ((i, None) # xs) w =
     (let w1 = call (Db (DFindById i)) w in
      if db_fails e (DFindById i) then (None, w1)
      else
        (case find_lean e i w1 of
           None \<Rightarrow>
             (case repair e xs w1 of
                (None, w') \<Rightarrow> (None, w')
              | (Some ds, w') \<Rightarrow> (Some (None # ds), w'))
         | Some dbRoom \<Rightarrow>
             (let w2 = call (Redis (RSet (detail_key i) 3600)) w1 in
              if redis_fails e (RSet (detail_key i) 3600) then (None, w2)
              else
                (case repair e xs (w2\<lparr>details := (details w2)(detail_key i \<mapsto> (dbRoom, 3600))\<rparr>) of
                   (None, w') \<Rightarrow> (None, w')
                 | (Some ds, w') \<Rightarrow> (Some (Some dbRoom # ds), w')))))"

text \<open>The outer \<^verbatim>\<open>catch\<close> of lines 515-524.\<close>

definition fetch_error :: "world \<Rightarrow> response \<times> world" where
  "fetch_error w = (RoomsFetchError, call (LogError RoomsFetchFailed) w)"

text \<open>Lines 448-486: the path taken when the search term is empty.\<close>

definition list_from_index :: "env \<Rightarrow> int \<Rightarrow> int \<Rightarrow> world \<Rightarrow> response \<times> world" where
  "list_from_index e pg sz w =
     (let start = pg * sz; stop = start + sz - 1;
          w1 = call (Redis RConnect) w
      in if redis_fails e RConnect then fetch_error w1
         else
           (let cmd = RZRevRange ids_key start stop;
                w2 = call (Redis cmd) w1
            in if redis_fails e cmd then fetch_error w2
               else
                 (let roomIds = zrevrange (ids_index w2) start stop in
                  case get_details e roomIds w2 of
                    (None, w3) \<Rightarrow> fetch_error w3
                  | (Some cached, w3) \<Rightarrow>
                     (case repair e (zip roomIds cached) w3 of
                        (None, w4) \<Rightarrow> fetch_error w4
                      | (Some repaired, w4) \<Rightarrow>
                         (let found = List.map_filter (\<lambda>r. r) repaired;
                              w5 = call (Redis (RZCard ids_key)) w4
                          in if redis_fails e (RZCard ids_key) then fetch_error w5
                             else
                               (ListB \<lparr>rows = found,
                                       metadata = page_meta_of (zcard (ids_index w5)) pg sz
                                         (int (length found)) ''createdAt'' ''desc''\<rparr>,
                                w5))))))"

text \<open>Lines 487-514: the path taken when there is a search term.\<close>

definition list_from_store :: "env \<Rightarrow> string \<Rightarrow> int \<Rightarrow> int \<Rightarrow> world \<Rightarrow> response \<times> world" where
  "list_from_store e search pg sz w =
     (let w1 = call (Db (DCount search)) w in
      if db_fails e (DCount search) then fetch_error w1
      else
        (let totalCount = int (length (matching search (rooms w1)));
             skip = pg * sz;
             cmd = DFind search skip sz;
             w2 = call (Db cmd) w1
         in if db_fails e cmd then fetch_error w2
            else
              (let found = map (\<lambda>r. map_participants Unpopulated
                                      (default_projection (hide_password e)
                                         (populate_creator (users w2) r)))
                             (aggregate_rooms search ''createdAt'' ''desc'' skip sz (rooms w2))
               in (ListB \<lparr>rows = found,
                          metadata = page_meta_of totalCount pg sz (int (length found))
                            ''createdAt'' ''desc''\<rparr>,
                   w2))))"

definition list_rooms_B :: "env \<Rightarrow> oid \<Rightarrow> query \<Rightarrow> world \<Rightarrow> response \<times> world" where
  "list_rooms_B e uid q w =
     (let pg = norm_page q; sz = norm_pageSize q; search = norm_search q in
      if search = [] then list_from_index e pg sz w
      else list_from_store e search pg sz w)"

subsection \<open>Split-cache variant: creation (lines 528-575)\<close>

definition create_error :: "world \<Rightarrow> response \<times> world" where
  "create_error w = (ServerError, call (LogError RoomCreateFailed) w)"

text \<open>Lines 548-552: the detail entry and the index entry of the new room. No call is
  guarded; \<open>None\<close> is an exception that reaches the outer \<^verbatim>\<open>catch\<close>.\<close>

definition mirror_room :: "env \<Rightarrow> (user option, user) room_rec \<Rightarrow> world \<Rightarrow> bool \<times> world" where
  "mirror_room e r w =
     (let w1 = call (Redis RConnect) w in
      if redis_fails e RConnect then (False, w1)
      else
        (let k = detail_key (room_id r);
             w2 = call (Redis (RSet k 3600)) w1
         in if redis_fails e (RSet k 3600) then (False, w2)
            else
              (let w3 = w2\<lparr>details := (details w2)(k \<mapsto> (map_participants PopulatedUser r, 3600))\<rparr>;
                   cmd = RZAdd ids_key (createdAt r) (room_id r);
                   w4 = call (Redis cmd) w3
               in if redis_fails e cmd then (False, w4)
                  else (True, w4\<lparr>ids_index := zadd (ids_index w4) (createdAt r) (room_id r)\<rparr>))))"

definition create_room_B :: "env \<Rightarrow> oid \<Rightarrow> create_body \<Rightarrow> world \<Rightarrow> response \<times> world" where
  "create_room_B e uid b w =
     (if blank_name (b_name b) then (NameRequired, w)
      else
        (let r = new_room e uid b in
         case save_new e r w of
           None \<Rightarrow> create_error (call (Db (DSave (room_id r))) w)
         | Some w1 \<Rightarrow>
            (let w2 = call (Db (DFindById (room_id r))) w1 in
             case find_populated e (room_id r) w2 of
               None \<Rightarrow> create_error w2
             | Some None \<Rightarrow> create_error w2
             | Some (Some populatedRoom) \<Rightarrow>
                (case mirror_room e populatedRoom w2 of
                   (False, w3) \<Rightarrow> create_error w3
                 | (True, w3) \<Rightarrow>
                    (let w4 = (if io_ready e
                               then call (EmitCreated ''room-list'' (strip_password populatedRoom)) w3
                               else w3)
                     in (Created (strip_password populatedRoom), w4))))))"

subsection \<open>Joining a room (lines 282-342 and 608-668, the same text)\<close>

definition join_error :: "world \<Rightarrow> response \<times> world" where
  "join_error w = (ServerError, call (LogError RoomJoinFailed) w)"

text \<open>Lines 311-315: the membership test, and the write of the participant list when
  the principal is not in it. \<open>None\<close> is a rejected \<^verbatim>\<open>room.save()\<close>.\<close>

definition add_participant :: "env \<Rightarrow> oid \<Rightarrow> room \<Rightarrow> world \<Rightarrow> (room \<times> world) option" where
  "add_participant e uid r w =
     (if uid \<in> set (participants r) then Some (r, w)
      else
        (let r' = r\<lparr>participants := participants r @ [uid]\<rparr>;
             w1 = call (Db (DSave (room_id r))) w
         in if db_fails e (DSave (room_id r)) then None
            else Some (r', w1\<lparr>rooms := map (\<lambda>x. if room_id x = room_id r
                                                 then x\<lparr>participants := participants r'\<rparr>
                                                 else x) (rooms w1)\<rparr>)))"

text \<open>\<^verbatim>\<open>room.checkPassword\<close> belongs to models/Room.js, which is not part of the
  sources: it is the parameter \<open>check_password\<close> of the environment, applied to the
  stored secret and the supplied one.\<close>

definition join_room :: "env \<Rightarrow> oid \<Rightarrow> oid \<Rightarrow> string option \<Rightarrow> world \<Rightarrow> response \<times> world" where
  "join_room e uid rid pw w =
     (let w1 = call (Db (DFindById rid)) w in
      if db_fails e (DFindById rid) then join_error w1
      else
        (case find_room rid (rooms w1) of
           None \<Rightarrow> (RoomNotFound, w1)
         | Some r \<Rightarrow>
            if hasPassword r \<and> str_or_empty pw = [] then (PasswordRequired, w1)
            else if hasPassword r \<and> \<not> check_password e (password r) (str_or_empty pw)
            then (PasswordMismatch, w1)
            else
              (case add_participant e uid r w1 of
                 None \<Rightarrow> join_error (call (Db (DSave rid)) w1)
               | Some (r', w2) \<Rightarrow>
                  (let w3 = call (Db (DPopulate rid)) w2 in
                   if db_fails e (DPopulate rid) then join_error w3
                   else
                     (let populatedRoom = populate_participants (users w3) r';
                          w4 = (if io_ready e
                                then call (EmitUpdate rid (strip_password populatedRoom)) w3
                                else w3)
                      in (Joined (strip_password populatedRoom), w4))))))"

subsection \<open>The split-cache listing, as the specification words it\<close>

text \<open>Section 4.4 of the specification, step 1: the rank window
  \<open>[page * pageSize, page * pageSize + pageSize - 1]\<close> of the Sorted Index, \<dots>\<close>

definition spec_window_ids :: "query \<Rightarrow> world \<Rightarrow> oid list" where
  "spec_window_ids q w =
     zrevrange (ids_index w) (norm_page q * norm_pageSize q)
       (norm_page q * norm_pageSize q + norm_pageSize q - 1)"

text \<open>\<dots> for each identifier the Detail Cache, and on a miss the populated record of
  the Primary Store (section 4.2), \<dots>\<close>

definition spec_detail_lookup :: "env \<Rightarrow> world \<Rightarrow> oid \<Rightarrow> cached_room option" where
  "spec_detail_lookup e w i =
     (case details w (detail_key i) of Some (d, ttl) \<Rightarrow> Some d | None \<Rightarrow> find_lean e i w)"

text \<open>\<dots> which is fetched and written back with a time to live of 3600 seconds. These are
  the calls the repair of one identifier issues.\<close>

definition spec_repair_calls :: "env \<Rightarrow> world \<Rightarrow> oid \<Rightarrow> event list" where
  "spec_repair_calls e w i =
     (case details w (detail_key i) of
        Some (d, ttl) \<Rightarrow> []
      | None \<Rightarrow> Db (DFindById i)
          # (case find_lean e i w of None \<Rightarrow> [] | Some d \<Rightarrow> [Redis (RSet (detail_key i) 3600)]))"

text \<open>The result, the calls and the writes of the repair loop, by recursion over the
  list the loop runs over. \<open>look\<close> is the lookup in the store.\<close>

fun repaired :: "(oid \<Rightarrow> cached_room option) \<Rightarrow> oid \<times> cached_room option \<Rightarrow> cached_room option" where
  "repaired look (i, Some d) = Some d"
| "repaired look (i, None) = look i"

fun repair_events :: "(oid \<Rightarrow> cached_room option) \<Rightarrow> oid \<times> cached_room option \<Rightarrow> event list" where
  "repair_events look (i, Some d) = []"
| "repair_events look (i, None) =
     Db (DFindById i)
       # (case look i of None \<Rightarrow> [] | Some d \<Rightarrow> [Redis (RSet (detail_key i) 3600)])"

fun repair_writes :: "(oid \<Rightarrow> cached_room option) \<Rightarrow> (oid \<times> cached_room option) list \<Rightarrow> (string \<rightharpoonup> cached_room \<times> nat) \<Rightarrow> (string \<rightharpoonup> cached_room \<times> nat)" where
  "repair_writes look [] m = m"
| "repair_writes look ((i, Some d) # xs) m = repair_writes look xs m"
| "repair_writes look ((i, None) # xs) m =
     (case look i of
        None \<Rightarrow> repair_writes look xs m
      | Some d \<Rightarrow> repair_writes look xs (m(detail_key i \<mapsto> (d, 3600))))"

subsection \<open>What a response shows\<close>

fun listed_names :: "response \<Rightarrow> string list" where
  "listed_names (ListA p) = map s_name (rows p)"
| "listed_names (ListB p) = map room_name (rows p)"
| "listed_names other = []"

fun echoed_sort :: "response \<Rightarrow> (string \<times> string) option" where
  "echoed_sort (ListA p) = Some (sort_field (metadata p), sort_order (metadata p))"
| "echoed_sort (ListB p) = Some (sort_field (metadata p), sort_order (metadata p))"
| "echoed_sort other = None"

subsection \<open>Example principals, rooms, environments and requests\<close>

definition alice :: user where
  "alice = \<lparr>user_id = ''u1'', user_name = ''alice'', user_email = ''alice@example.org''\<rparr>"

definition bob :: user where
  "bob = \<lparr>user_id = ''u2'', user_name = ''bob'', user_email = ''bob@example.org''\<rparr>"

text \<open>An environment in which every collaborator answers, and one in which Redis is
  unreachable.\<close>

definition env_ok :: env where
  "env_ok = \<lparr>io_ready = True, redis_fails = (\<lambda>c. False), db_fails = (\<lambda>c. False),
     fresh_id = ''r9'', now = 9000, hide_password = False, hash_password = (\<lambda>s. ''#'' @ s),
     check_password = (\<lambda>stored given. stored = Some (''#'' @ given))\<rparr>"

definition env_redis_down :: env where
  "env_redis_down = env_ok\<lparr>redis_fails := (\<lambda>c. True)\<rparr>"

text \<open>An environment in which every call to the store is rejected.\<close>

definition env_db_down :: env where
  "env_db_down = env_ok\<lparr>db_fails := (\<lambda>c. True)\<rparr>"

text \<open>An environment in which the connection to Redis is handed out but every command
  sent over it is rejected.\<close>

definition env_redis_flaky :: env where
  "env_redis_flaky = env_ok\<lparr>redis_fails := (\<lambda>c. c \<noteq> RConnect)\<rparr>"

definition q_zero :: query where
  "q_zero = \<lparr>q_page = None, q_pageSize = Some ''0'', q_sortField = None, q_sortOrder = None,
     q_search = None\<rparr>"

definition q_wild :: query where
  "q_wild = \<lparr>q_page = Some ''-5'', q_pageSize = Some ''1000'', q_sortField = Some ''owner'',
     q_sortOrder = Some ''up'', q_search = None\<rparr>"

definition room_alpha :: room where
  "room_alpha = \<lparr>room_id = ''r1'', room_name = ''alpha'', creator = ''u1'',
     participants = [''u1''], password = None, hasPassword = False, createdAt = 1000\<rparr>"

definition world_one :: world where
  "world_one = \<lparr>rooms = [room_alpha], users = [alice, bob], pages = Map.empty,
     details = Map.empty, ids_index = [(''r1'', 1000)], trace = []\<rparr>"

definition room_beta :: room where
  "room_beta = \<lparr>room_id = ''r2'', room_name = ''beta'', creator = ''u2'',
     participants = [''u2''], password = Some ''#pw'', hasPassword = True, createdAt = 2000\<rparr>"

definition world_two :: world where
  "world_two = \<lparr>rooms = [room_alpha, room_beta], users = [alice, bob], pages = Map.empty,
     details = Map.empty, ids_index = [(''r1'', 1000), (''r2'', 2000)], trace = []\<rparr>"

definition q_default :: query where
  "q_default = \<lparr>q_page = None, q_pageSize = None, q_sortField = None, q_sortOrder = None,
     q_search = None\<rparr>"

definition alpha_cached :: cached_room where
  "alpha_cached = \<lparr>room_id = ''r1'', room_name = ''alpha (cached)'', creator = Some alice,
     participants = [Unpopulated ''u1''], password = None, hasPassword = False,
     createdAt = 1000\<rparr>"

definition beta_lean :: cached_room where
  "beta_lean = \<lparr>room_id = ''r2'', room_name = ''beta'', creator = Some bob,
     participants = [Unpopulated ''u2''], password = Some ''#pw'', hasPassword = True,
     createdAt = 2000\<rparr>"

definition world_warm :: world where
  "world_warm = world_two\<lparr>details := [''chat:room:r1'' \<mapsto> (alpha_cached, 1200)]\<rparr>"

definition q_by_name :: query where
  "q_by_name = \<lparr>q_page = None, q_pageSize = None, q_sortField = Some ''name'',
     q_sortOrder = Some ''asc'', q_search = None\<rparr>"

definition q_search_a :: query where
  "q_search_a = \<lparr>q_page = None, q_pageSize = None, q_sortField = Some ''name'',
     q_sortOrder = Some ''asc'', q_search = Some ''A''\<rparr>"

definition body_gamma :: create_body where
  "body_gamma = \<lparr>b_name = Some '' gamma '', b_password = Some ''pw''\<rparr>"

definition body_blank :: create_body where
  "body_blank = \<lparr>b_name = Some ''   '', b_password = None\<rparr>"

definition gamma_doc :: "(user option, user) room_rec" where
  "gamma_doc = \<lparr>room_id = ''r9'', room_name = ''gamma'', creator = Some bob,
     participants = [bob], password = None, hasPassword = True, createdAt = 9000\<rparr>"

text \<open>The aggregate-cache variant after alice has listed the rooms by name, and after
  bob has then created a room.\<close>

definition world_listed :: world where
  "world_listed = snd (list_rooms_A env_ok ''u1'' q_by_name world_one)"

definition world_created :: world where
  "world_created = snd (create_room_A env_ok ''u2'' body_gamma world_listed)"

definition name_key :: string where
  "name_key = ''chat:rooms:list:page=0:size=10:sort=name:asc:search=''"

text \<open>The aggregate-cache variant after alice has listed the rooms with the default
  parameters.\<close>

definition world_seen_by_alice :: world where
  "world_seen_by_alice = snd (list_rooms_A env_ok ''u1'' q_default world_one)"

definition alpha_lean :: cached_room where
  "alpha_lean = \<lparr>room_id = ''r1'', room_name = ''alpha'', creator = Some alice,
     participants = [Unpopulated ''u1''], password = None, hasPassword = False,
     createdAt = 1000\<rparr>"

section \<open>Properties\<close>

subsection \<open>Normalisation of the query parameters\<close>

lemmas parse_defs = parse_or_def parseInt_def is_ws_def is_digit_def digit_val_def digits_value_def

lemma parseInt_1000: "parseInt ''1000'' = Some 1000"
  by (simp add: parse_defs)

lemma parseInt_0: "parseInt ''0'' = Some 0"
  by (simp add: parse_defs)

lemma parseInt_minus_5: "parseInt ''-5'' = Some (- 5)"
  by (simp add: parse_defs)

lemma norm_page_nonneg: "0 \<le> norm_page q"
  by (simp add: norm_page_def)

lemma norm_pageSize_bounds: "1 \<le> norm_pageSize q \<and> norm_pageSize q \<le> 50"
  by (simp add: norm_pageSize_def)

lemma norm_page_parsed: "q_page q = Some s \<Longrightarrow> parseInt s = Some n \<Longrightarrow> norm_page q = max 0 n"
  by (simp add: norm_page_def parse_or_def)

lemma norm_page_default: "q_page q = None \<or> (\<exists>s. q_page q = Some s \<and> parseInt s = None) \<Longrightarrow> norm_page q = 0"
  by (auto simp add: norm_page_def parse_or_def)

lemma norm_pageSize_parsed:
  "q_pageSize q = Some s \<Longrightarrow> parseInt s = Some n \<Longrightarrow> n \<noteq> 0 \<Longrightarrow> norm_pageSize q = min (max 1 n) 50"
  by (simp add: norm_pageSize_def parse_or_def)

lemma norm_pageSize_default:
  "q_pageSize q = None \<or> (\<exists>s. q_pageSize q = Some s \<and> (parseInt s = None \<or> parseInt s = Some 0)) \<Longrightarrow> norm_pageSize q = 10"
  by (auto simp add: norm_pageSize_def parse_or_def)

lemma norm_sortField_fallback:
  "q_sortField q = Some f \<Longrightarrow> f \<notin> {''createdAt'', ''name'', ''participantsCount''} \<Longrightarrow> norm_sortField q = ''createdAt''"
  by (simp add: norm_sortField_def)

text \<open>Claim C5 as stated says that a requested page size of 0 becomes 1. The code gives
  10: \<^verbatim>\<open>parseInt('0') || 10\<close> is 10, because 0 is falsy.\<close>

theorem c5_pageSize_zero_counterexample:
  "norm_pageSize q_zero = 10 \<and> norm_pageSize q_zero \<noteq> 1"
  by (simp add: q_zero_def norm_pageSize_def parse_or_def parseInt_0)

text \<open>Claim C5, amended: a requested page size of 1000 becomes 50; a requested page size
  of 0 becomes the default 10 (as an absent or non-numeric one does); a requested page
  of -5 becomes 0; a page that parses to \<open>n\<close> becomes \<open>max 0 n\<close> and an absent or
  non-numeric one 0; a page size that parses to \<open>n \<noteq> 0\<close> becomes \<open>n\<close> clamped into
  \<open>[1, 50]\<close>, and the result always lies in \<open>[1, 50]\<close>; an unrecognised sort field
  falls back to \<open>createdAt\<close>. The page computed by the listing carries these values.\<close>

theorem c5_normalized_parameters:
  "norm_pageSize (q\<lparr>q_pageSize := Some ''1000''\<rparr>) = 50
   \<and> norm_pageSize (q\<lparr>q_pageSize := Some ''0''\<rparr>) = 10
   \<and> norm_page (q\<lparr>q_page := Some ''-5''\<rparr>) = 0
   \<and> (\<forall>s n. q_page q = Some s \<and> parseInt s = Some n \<longrightarrow> norm_page q = max 0 n)
   \<and> (q_page q = None \<or> (\<exists>s. q_page q = Some s \<and> parseInt s = None) \<longrightarrow> norm_page q = 0)
   \<and> (\<forall>s n. q_pageSize q = Some s \<and> parseInt s = Some n \<and> n \<noteq> 0
          \<longrightarrow> norm_pageSize q = min (max 1 n) 50)
   \<and> (q_pageSize q = None
        \<or> (\<exists>s. q_pageSize q = Some s \<and> (parseInt s = None \<or> parseInt s = Some 0))
          \<longrightarrow> norm_pageSize q = 10)
   \<and> 1 \<le> norm_pageSize q \<and> norm_pageSize q \<le> 50 \<and> 0 \<le> norm_page q
   \<and> (\<forall>f. q_sortField q = Some f \<and> f \<notin> {''createdAt'', ''name'', ''participantsCount''}
          \<longrightarrow> norm_sortField q = ''createdAt'')
   \<and> page (metadata (compute_page_A uid q w)) = norm_page q
   \<and> pageSize (metadata (compute_page_A uid q w)) = norm_pageSize q
   \<and> sort_field (metadata (compute_page_A uid q w)) = norm_sortField q"
proof -
  have a: "norm_pageSize (q\<lparr>q_pageSize := Some ''1000''\<rparr>) = 50"
    using norm_pageSize_parsed [of "q\<lparr>q_pageSize := Some ''1000''\<rparr>" "''1000''" 1000]
    by (simp add: parseInt_1000)
  have b: "norm_pageSize (q\<lparr>q_pageSize := Some ''0''\<rparr>) = 10"
    by (rule norm_pageSize_default) (simp add: parseInt_0)
  have c: "norm_page (q\<lparr>q_page := Some ''-5''\<rparr>) = 0"
    using norm_page_parsed [of "q\<lparr>q_page := Some ''-5''\<rparr>" "''-5''" "- 5"]
    by (simp add: parseInt_minus_5)
  have d: "page (metadata (compute_page_A uid q w)) = norm_page q
     \<and> pageSize (metadata (compute_page_A uid q w)) = norm_pageSize q
     \<and> sort_field (metadata (compute_page_A uid q w)) = norm_sortField q"
    by (simp add: compute_page_A_def page_meta_of_def Let_def)
  have e1: "\<forall>s n. q_page q = Some s \<and> parseInt s = Some n \<longrightarrow> norm_page q = max 0 n"
    using norm_page_parsed [of q] by blast
  have e2: "q_page q = None \<or> (\<exists>s. q_page q = Some s \<and> parseInt s = None) \<longrightarrow> norm_page q = 0"
    using norm_page_default [of q] by blast
  have e3: "\<forall>s n. q_pageSize q = Some s \<and> parseInt s = Some n \<and> n \<noteq> 0
          \<longrightarrow> norm_pageSize q = min (max 1 n) 50"
    using norm_pageSize_parsed [of q] by blast
  have e4: "q_pageSize q = None
        \<or> (\<exists>s. q_pageSize q = Some s \<and> (parseInt s = None \<or> parseInt s = Some 0))
          \<longrightarrow> norm_pageSize q = 10"
    using norm_pageSize_default [of q] by blast
  have e5: "\<forall>f. q_sortField q = Some f \<and> f \<notin> {''createdAt'', ''name'', ''participantsCount''}
          \<longrightarrow> norm_sortField q = ''createdAt''"
    using norm_sortField_fallback [of q] by blast
  note e6 = norm_pageSize_bounds [of q, THEN conjunct1] norm_pageSize_bounds [of q, THEN conjunct2]
    norm_page_nonneg [of q]
  note d' = d [THEN conjunct1] d [THEN conjunct2, THEN conjunct1] d [THEN conjunct2, THEN conjunct2]
  show ?thesis
    by (intro conjI a b c e1 e2 e3 e4 e5 e6 d')
qed

text \<open>The amended claim at the request \<open>page=-5&pageSize=1000&sortField=owner\<close>.\<close>

theorem c5_normalized_parameters_witness:
  "q_page q_wild = Some ''-5'' \<and> parseInt ''-5'' = Some (- 5) \<and> norm_page q_wild = 0
   \<and> q_pageSize q_wild = Some ''1000'' \<and> parseInt ''1000'' = Some 1000 \<and> norm_pageSize q_wild = 50
   \<and> q_sortField q_wild = Some ''owner'' \<and> norm_sortField q_wild = ''createdAt''"
proof -
  have p: "q_page q_wild = Some ''-5'' \<and> parseInt ''-5'' = Some (- 5)"
    by (simp add: q_wild_def parseInt_minus_5)
  have s: "q_pageSize q_wild = Some ''1000'' \<and> parseInt ''1000'' = Some 1000 \<and> (1000::int) \<noteq> 0"
    by (simp add: q_wild_def parseInt_1000)
  have f: "q_sortField q_wild = Some ''owner'' \<and> ''owner'' \<notin> {''createdAt'', ''name'', ''participantsCount''}"
    by (simp add: q_wild_def)
  note t = c5_normalized_parameters [of q_wild "''u1''" world_one]
  from t have "\<forall>s n. q_page q_wild = Some s \<and> parseInt s = Some n \<longrightarrow> norm_page q_wild = max 0 n"
    by (elim conjE)
  with p have "norm_page q_wild = max 0 (- 5)" by blast
  moreover from t have "\<forall>s n. q_pageSize q_wild = Some s \<and> parseInt s = Some n \<and> n \<noteq> 0
          \<longrightarrow> norm_pageSize q_wild = min (max 1 n) 50"
    by (elim conjE)
  with s have "norm_pageSize q_wild = min (max 1 1000) 50" by blast
  moreover from t have "\<forall>f. q_sortField q_wild = Some f \<and> f \<notin> {''createdAt'', ''name'', ''participantsCount''}
          \<longrightarrow> norm_sortField q_wild = ''createdAt''"
    by (elim conjE)
  with f have "norm_sortField q_wild = ''createdAt''" by blast
  ultimately show ?thesis using p s f by simp
qed

subsection \<open>Validation of the room name\<close>

lemma dropWhile_all: "list_all P xs \<Longrightarrow> dropWhile P xs = []"
  by (induction xs) auto

lemma trim_whitespace_only: "list_all is_ws s \<Longrightarrow> trim s = []"
  by (simp add: trim_def dropWhile_all)

lemma dropWhile_only: "list_all P (dropWhile P xs) \<Longrightarrow> dropWhile P xs = []"
  by (induction xs) (auto split: if_splits)

lemma trim_empty_iff: "trim s = [] \<longleftrightarrow> list_all is_ws s"
proof
  assume "trim s = []"
  then have "list_all is_ws (dropWhile is_ws s)"
    by (simp add: trim_def dropWhile_eq_Nil_conv list_all_iff)
  then have "dropWhile is_ws s = []"
    by (rule dropWhile_only)
  then show "list_all is_ws s"
    by (simp add: dropWhile_eq_Nil_conv list_all_iff)
next
  assume "list_all is_ws s"
  then show "trim s = []"
    by (rule trim_whitespace_only)
qed

text \<open>Claim C8: a creation request whose room name is missing, or empty after trimming,
  is answered 400 in both variants, and the world is returned as it was: the store, the
  sorted index, both cache tiers and the trace of calls are unchanged, so no call to the
  store or to Redis was issued.\<close>

theorem c8_blank_name_rejected:
  assumes "b_name b = None \<or> (\<exists>s. b_name b = Some s \<and> trim s = [])"
  shows "create_room_A e uid b w = (NameRequired, w)
       \<and> create_room_B e uid b w = (NameRequired, w)
       \<and> status NameRequired = 400"
proof -
  from assms have "blank_name (b_name b)"
    by (auto simp add: blank_name_def)
  then show ?thesis
    by (simp add: create_room_A_def create_room_B_def)
qed

text \<open>Claim C8 at the name of three spaces.\<close>

theorem c8_blank_name_rejected_witness:
  "b_name body_blank = Some ''   '' \<and> trim ''   '' = []
   \<and> create_room_A env_ok ''u1'' body_blank world_one = (NameRequired, world_one)
   \<and> create_room_B env_ok ''u1'' body_blank world_one = (NameRequired, world_one)"
proof -
  have h: "b_name body_blank = Some ''   '' \<and> trim ''   '' = []"
    by (simp add: body_blank_def trim_empty_iff is_ws_def)
  then have "b_name body_blank = None \<or> (\<exists>s. b_name body_blank = Some s \<and> trim s = [])"
    by blast
  from c8_blank_name_rejected [OF this, of env_ok "''u1''" world_one] h
  show ?thesis by simp
qed

subsection \<open>The password is stripped from what a creation sends out\<close>

lemma trace_call: "trace (call ev w) = trace w @ [ev]"
  by (simp add: call_def)

lemma password_strip: "password (strip_password r) = None"
  by (simp add: strip_password_def)

lemma cache_del_A_trace:
  "set (trace (cache_del_A e k w)) \<subseteq> set (trace w) \<union> {Redis (RDel k), LogError RedisDelError}"
  by (auto simp add: cache_del_A_def call_def Let_def)

lemma mirror_room_trace:
  "mirror_room e r w = (ok, w') \<Longrightarrow> EmitCreated ch p \<in> set (trace w') \<Longrightarrow> EmitCreated ch p \<in> set (trace w)"
  by (auto simp add: mirror_room_def call_def Let_def split: if_splits)

lemma save_new_trace:
  "save_new e r w = Some w' \<Longrightarrow> trace w' = trace w @ [Db (DSave (room_id r))]"
  by (auto simp add: save_new_def call_def Let_def split: if_splits)

lemma create_A_created:
  assumes "create_room_A e uid b w = (Created r, w')"
  shows "password r = None
       \<and> (\<forall>ch p. EmitCreated ch p \<in> set (trace w') \<longrightarrow> EmitCreated ch p \<in> set (trace w) \<or> (ch = ''room-list'' \<and> p = r))
       \<and> (io_ready e \<longrightarrow> EmitCreated ''room-list'' r \<in> set (trace w'))"
  using assms
  apply (simp add: create_room_A_def Let_def split: if_splits option.splits)
  apply (auto simp add: password_strip call_def cache_del_A_def Let_def dest!: save_new_trace split: if_splits)
  done

lemma create_B_created:
  assumes "create_room_B e uid b w = (Created r, w')"
  shows "password r = None
       \<and> (\<forall>ch p. EmitCreated ch p \<in> set (trace w') \<longrightarrow> EmitCreated ch p \<in> set (trace w) \<or> (ch = ''room-list'' \<and> p = r))
       \<and> (io_ready e \<longrightarrow> EmitCreated ''room-list'' r \<in> set (trace w'))"
  using assms
  apply (simp add: create_room_B_def create_error_def Let_def split: if_splits option.splits prod.splits bool.splits)
  apply (auto simp add: password_strip call_def Let_def dest!: save_new_trace  split: if_splits)
  apply (auto simp add: mirror_room_def call_def Let_def split: if_splits)
  done



lemma status_created: "status resp = 201 \<longleftrightarrow> (\<exists>r. resp = Created r)"
  by (cases resp) simp_all

text \<open>Claim C9: when a creation answers 201 with the record \<open>r\<close>, in either variant,
  \<open>r\<close> has no password; every \<open>roomCreated\<close> event in the trace afterwards was there
  before or is the event of this request, sent to \<open>room-list\<close> with the same record and no
  password; and that event is sent whenever the socket server is initialised.\<close>

theorem c9_password_stripped:
  assumes "create_room_A e uid b w = (Created r, w') \<or> create_room_B e uid b w = (Created r, w')"
  shows "password r = None
       \<and> (\<forall>ch p. EmitCreated ch p \<in> set (trace w')
            \<longrightarrow> EmitCreated ch p \<in> set (trace w) \<or> (ch = ''room-list'' \<and> p = r \<and> password p = None))
       \<and> (io_ready e \<longrightarrow> EmitCreated ''room-list'' r \<in> set (trace w'))"
  using assms create_A_created [of e uid b w r w'] create_B_created [of e uid b w r w']
  by blast

text \<open>Claim C9 at a creation with the password \<open>pw\<close>: the store keeps the secret, the
  response and the event do not carry it.\<close>

theorem c9_password_stripped_witness:
  "create_room_A env_ok ''u2'' body_gamma world_one
      = (Created gamma_doc, snd (create_room_A env_ok ''u2'' body_gamma world_one))
   \<and> map password (rooms (snd (create_room_A env_ok ''u2'' body_gamma world_one)))
      = [None, Some ''#pw'']
   \<and> password gamma_doc = None
   \<and> EmitCreated ''room-list'' gamma_doc
        \<in> set (trace (snd (create_room_A env_ok ''u2'' body_gamma world_one)))"
proof -
  have f: "fst (create_room_A env_ok ''u2'' body_gamma world_one) = Created gamma_doc"
    by code_simp
  then have run: "create_room_A env_ok ''u2'' body_gamma world_one
      = (Created gamma_doc, snd (create_room_A env_ok ''u2'' body_gamma world_one))"
    by (simp add: prod_eq_iff)
  have st: "map password (rooms (snd (create_room_A env_ok ''u2'' body_gamma world_one)))
      = [None, Some ''#pw'']"
    by code_simp
  have io: "io_ready env_ok"
    by (simp add: env_ok_def)
  from c9_password_stripped [OF disjI1, OF run] io run st
  show ?thesis by simp
qed

subsection \<open>Joining a room one is already in\<close>

text \<open>Claim C10 as stated promises the success response to every participant who joins
  again. A participant of a password-protected room who sends no password is answered
  400: the password gate of lines 294-309 comes before the membership test.\<close>

theorem c10_member_without_password_counterexample:
  "find_room ''r2'' (rooms world_two) = Some room_beta
   \<and> ''u2'' \<in> set (participants room_beta)
   \<and> fst (join_room env_ok ''u2'' ''r2'' None world_two) = PasswordRequired
   \<and> status PasswordRequired = 400"
  by (simp add: join_room_def find_room_def world_two_def room_alpha_def room_beta_def
      env_ok_def call_def str_or_empty_def Let_def)

lemma find_room_id: "find_room rid rs = Some r \<Longrightarrow> room_id r = rid"
  by (auto simp add: find_room_def find_Some_iff)

lemma add_participant_member:
  "uid \<in> set (participants r) \<Longrightarrow> add_participant e uid r w = Some (r, w)"
  by (simp add: add_participant_def)

lemma join_member_rooms:
  assumes "find_room rid (rooms w) = Some r" and "uid \<in> set (participants r)"
  shows "rooms (snd (join_room e uid rid pw w)) = rooms w"
  using assms
  by (simp add: join_room_def join_error_def add_participant_member call_def Let_def)

lemma join_member_no_save:
  assumes "find_room rid (rooms w) = Some r" and "uid \<in> set (participants r)"
  shows "Db (DSave i) \<in> set (trace (snd (join_room e uid rid pw w))) \<Longrightarrow> Db (DSave i) \<in> set (trace w)"
  using assms
  by (auto simp add: join_room_def join_error_def add_participant_member call_def Let_def split: if_splits)

lemma join_member_success:
  assumes "find_room rid (rooms w) = Some r" and "uid \<in> set (participants r)"
    and "\<not> db_fails e (DFindById rid)" and "\<not> db_fails e (DPopulate rid)"
    and "\<not> hasPassword r \<or> (str_or_empty pw \<noteq> [] \<and> check_password e (password r) (str_or_empty pw))"
  shows "fst (join_room e uid rid pw w) = Joined (strip_password (populate_participants (users w) r))"
  using assms
  by (auto simp add: join_room_def add_participant_member call_def Let_def)

lemma join_member_lookup_fails:
  assumes "db_fails e (DFindById rid)"
  shows "fst (join_room e uid rid pw w) = ServerError"
  using assms by (simp add: join_room_def join_error_def Let_def)

lemma join_password_required:
  assumes "find_room rid (rooms w) = Some r" and "\<not> db_fails e (DFindById rid)"
    and "hasPassword r" and "str_or_empty pw = []"
  shows "fst (join_room e uid rid pw w) = PasswordRequired"
  using assms by (simp add: join_room_def call_def Let_def)

lemma join_password_mismatch:
  assumes "find_room rid (rooms w) = Some r" and "\<not> db_fails e (DFindById rid)"
    and "hasPassword r" and "str_or_empty pw \<noteq> []"
    and "\<not> check_password e (password r) (str_or_empty pw)"
  shows "fst (join_room e uid rid pw w) = PasswordMismatch"
  using assms by (simp add: join_room_def call_def Let_def)

lemma join_member_populate_fails:
  assumes "find_room rid (rooms w) = Some r" and "uid \<in> set (participants r)"
    and "\<not> db_fails e (DFindById rid)" and "db_fails e (DPopulate rid)"
    and "\<not> hasPassword r \<or> (str_or_empty pw \<noteq> [] \<and> check_password e (password r) (str_or_empty pw))"
  shows "fst (join_room e uid rid pw w) = ServerError"
  using assms
  by (auto simp add: join_room_def join_error_def add_participant_member call_def Let_def)

text \<open>Claim C10, amended: when a principal who is already a participant joins an existing
  room, the rooms of the store are unchanged and no \<open>save\<close> is issued, whatever the
  outcome. The answer is decided as follows. When the lookup of the room is rejected, it
  is 500. Otherwise, for a room with a password: 400 when no password or an empty one is
  supplied, and 401 when the supplied password does not verify, also to a participant.
  Otherwise (the room has no password, or the supplied password is non-empty and
  verifies): the success response with the room record, whose participants are those the
  room had, when the read that populates the participants succeeds, and 500 when it is
  rejected.\<close>

theorem c10_join_by_member:
  assumes "find_room rid (rooms w) = Some r" and "uid \<in> set (participants r)"
  shows "rooms (snd (join_room e uid rid pw w)) = rooms w
       \<and> (\<forall>i. Db (DSave i) \<in> set (trace (snd (join_room e uid rid pw w))) \<longrightarrow> Db (DSave i) \<in> set (trace w))
       \<and> (\<not> db_fails e (DFindById rid) \<and> \<not> db_fails e (DPopulate rid)
           \<and> (\<not> hasPassword r \<or> (str_or_empty pw \<noteq> [] \<and> check_password e (password r) (str_or_empty pw)))
          \<longrightarrow> fst (join_room e uid rid pw w) = Joined (strip_password (populate_participants (users w) r))
              \<and> participants (strip_password (populate_participants (users w) r))
                  = List.map_filter (\<lambda>i. find_user i (users w)) (participants r))
       \<and> (\<not> db_fails e (DFindById rid) \<and> hasPassword r \<and> str_or_empty pw = []
          \<longrightarrow> fst (join_room e uid rid pw w) = PasswordRequired
              \<and> status (fst (join_room e uid rid pw w)) = 400)
       \<and> (\<not> db_fails e (DFindById rid) \<and> hasPassword r \<and> str_or_empty pw \<noteq> []
           \<and> \<not> check_password e (password r) (str_or_empty pw)
          \<longrightarrow> fst (join_room e uid rid pw w) = PasswordMismatch
              \<and> status (fst (join_room e uid rid pw w)) = 401)
       \<and> (db_fails e (DFindById rid)
           \<or> (db_fails e (DPopulate rid)
               \<and> (\<not> hasPassword r
                   \<or> (str_or_empty pw \<noteq> [] \<and> check_password e (password r) (str_or_empty pw))))
          \<longrightarrow> fst (join_room e uid rid pw w) = ServerError
              \<and> status (fst (join_room e uid rid pw w)) = 500)"
proof -
  have unchanged: "rooms (snd (join_room e uid rid pw w)) = rooms w"
    by (rule join_member_rooms [OF assms])
  have no_save: "\<forall>i. Db (DSave i) \<in> set (trace (snd (join_room e uid rid pw w)))
      \<longrightarrow> Db (DSave i) \<in> set (trace w)"
    using join_member_no_save [OF assms] by blast
  have ok: "\<not> db_fails e (DFindById rid) \<and> \<not> db_fails e (DPopulate rid)
           \<and> (\<not> hasPassword r \<or> (str_or_empty pw \<noteq> [] \<and> check_password e (password r) (str_or_empty pw)))
          \<longrightarrow> fst (join_room e uid rid pw w) = Joined (strip_password (populate_participants (users w) r))
              \<and> participants (strip_password (populate_participants (users w) r))
                  = List.map_filter (\<lambda>i. find_user i (users w)) (participants r)"
    using join_member_success [OF assms]
    by (simp add: strip_password_def populate_participants_def)
  have required: "\<not> db_fails e (DFindById rid) \<and> hasPassword r \<and> str_or_empty pw = []
          \<longrightarrow> fst (join_room e uid rid pw w) = PasswordRequired
              \<and> status (fst (join_room e uid rid pw w)) = 400"
    using join_password_required [OF assms(1), of e pw uid] by simp
  have mismatch: "\<not> db_fails e (DFindById rid) \<and> hasPassword r \<and> str_or_empty pw \<noteq> []
           \<and> \<not> check_password e (password r) (str_or_empty pw)
          \<longrightarrow> fst (join_room e uid rid pw w) = PasswordMismatch
              \<and> status (fst (join_room e uid rid pw w)) = 401"
    using join_password_mismatch [OF assms(1), of e pw uid] by simp
  have failed: "db_fails e (DFindById rid)
           \<or> (db_fails e (DPopulate rid)
               \<and> (\<not> hasPassword r
                   \<or> (str_or_empty pw \<noteq> [] \<and> check_password e (password r) (str_or_empty pw))))
          \<longrightarrow> fst (join_room e uid rid pw w) = ServerError
              \<and> status (fst (join_room e uid rid pw w)) = 500"
  proof (cases "db_fails e (DFindById rid)")
    case True
    then show ?thesis
      using join_member_lookup_fails [of e rid uid pw w] by simp
  next
    case False
    then show ?thesis
      using join_member_populate_fails [OF assms False, of pw] by auto
  qed
  show ?thesis
    by (intro conjI unchanged no_save ok required mismatch failed)
qed

text \<open>The amended claim C10 at bob joining his own protected room: with the right
  password, with no password, with a wrong password, and with the right password while
  the store rejects every call.\<close>

theorem c10_join_by_member_witness:
  "find_room ''r2'' (rooms world_two) = Some room_beta \<and> ''u2'' \<in> set (participants room_beta)
   \<and> hasPassword room_beta
   \<and> rooms (snd (join_room env_ok ''u2'' ''r2'' (Some ''pw'') world_two)) = rooms world_two
   \<and> fst (join_room env_ok ''u2'' ''r2'' (Some ''pw'') world_two)
       = Joined \<lparr>room_id = ''r2'', room_name = ''beta'', creator = ''u2'',
           participants = [bob], password = None, hasPassword = True, createdAt = 2000\<rparr>
   \<and> fst (join_room env_ok ''u2'' ''r2'' None world_two) = PasswordRequired
   \<and> status (fst (join_room env_ok ''u2'' ''r2'' None world_two)) = 400
   \<and> check_password env_ok (password room_beta) ''nope'' = False
   \<and> fst (join_room env_ok ''u2'' ''r2'' (Some ''nope'') world_two) = PasswordMismatch
   \<and> status (fst (join_room env_ok ''u2'' ''r2'' (Some ''nope'') world_two)) = 401
   \<and> db_fails env_db_down (DFindById ''r2'')
   \<and> fst (join_room env_db_down ''u2'' ''r2'' (Some ''pw'') world_two) = ServerError
   \<and> status (fst (join_room env_db_down ''u2'' ''r2'' (Some ''pw'') world_two)) = 500"
proof -
  have f: "find_room ''r2'' (rooms world_two) = Some room_beta"
    by (simp add: find_room_def world_two_def room_alpha_def room_beta_def)
  have m: "''u2'' \<in> set (participants room_beta)"
    by (simp add: room_beta_def)
  have h: "hasPassword room_beta"
    by (simp add: room_beta_def)
  have up: "\<not> db_fails env_ok (DFindById ''r2'')" "\<not> db_fails env_ok (DPopulate ''r2'')"
    by (simp_all add: env_ok_def)
  have right: "str_or_empty (Some ''pw'') \<noteq> []
      \<and> check_password env_ok (password room_beta) (str_or_empty (Some ''pw''))"
    by (simp add: env_ok_def room_beta_def str_or_empty_def)
  have none: "str_or_empty None = []"
    by (simp add: str_or_empty_def)
  have wrong: "str_or_empty (Some ''nope'') \<noteq> []
      \<and> \<not> check_password env_ok (password room_beta) (str_or_empty (Some ''nope''))"
    by (simp add: env_ok_def room_beta_def str_or_empty_def)
  have down: "db_fails env_db_down (DFindById ''r2'')"
    by (simp add: env_db_down_def)
  have p: "strip_password (populate_participants (users world_two) room_beta)
      = \<lparr>room_id = ''r2'', room_name = ''beta'', creator = ''u2'',
           participants = [bob], password = None, hasPassword = True, createdAt = 2000\<rparr>"
    by (simp add: strip_password_def populate_participants_def world_two_def room_beta_def
        find_user_def alice_def bob_def List.map_filter_def)
  note t = c10_join_by_member [OF f m]
  have a: "rooms (snd (join_room env_ok ''u2'' ''r2'' (Some ''pw'') world_two)) = rooms world_two
      \<and> fst (join_room env_ok ''u2'' ''r2'' (Some ''pw'') world_two)
       = Joined \<lparr>room_id = ''r2'', room_name = ''beta'', creator = ''u2'',
           participants = [bob], password = None, hasPassword = True, createdAt = 2000\<rparr>"
    using t [of env_ok "Some ''pw''"] up right p by simp
  have b: "fst (join_room env_ok ''u2'' ''r2'' None world_two) = PasswordRequired
      \<and> status (fst (join_room env_ok ''u2'' ''r2'' None world_two)) = 400"
    using t [of env_ok None] up h none by blast
  have c: "fst (join_room env_ok ''u2'' ''r2'' (Some ''nope'') world_two) = PasswordMismatch
      \<and> status (fst (join_room env_ok ''u2'' ''r2'' (Some ''nope'') world_two)) = 401"
    using t [of env_ok "Some ''nope''"] up h wrong by blast
  have d: "fst (join_room env_db_down ''u2'' ''r2'' (Some ''pw'') world_two) = ServerError
      \<and> status (fst (join_room env_db_down ''u2'' ''r2'' (Some ''pw'') world_two)) = 500"
    using t [of env_db_down "Some ''pw''"] down by blast
  from wrong have w': "check_password env_ok (password room_beta) ''nope'' = False"
    by (simp add: str_or_empty_def)
  from f m h a b c d w' down show ?thesis
    by simp
qed

subsection \<open>The listing through the sorted index\<close>

lemma find_lean_frame [simp]:
  "find_lean e i (w\<lparr>details := d\<rparr>) = find_lean e i w"
  "find_lean e i (w\<lparr>trace := t\<rparr>) = find_lean e i w"
  by (simp_all add: find_lean_def)

lemma repair_no_faults:
  assumes db: "\<And>i. \<not> db_fails e (DFindById i)" and rs: "\<And>k. \<not> redis_fails e (RSet k 3600)"
  shows "repair e xs w =
     (Some (map (repaired (\<lambda>i. find_lean e i w)) xs),
      w\<lparr>details := repair_writes (\<lambda>i. find_lean e i w) xs (details w),
        trace := trace w @ concat (map (repair_events (\<lambda>i. find_lean e i w)) xs)\<rparr>)"
proof (induction xs arbitrary: w)
  case Nil
  show ?case by simp
next
  case (Cons x xs)
  obtain i c where x: "x = (i, c)" by (cases x)
  show ?case
  proof (cases c)
    case (Some d)
    with x Cons show ?thesis by simp
  next
    case None
    note miss = this
    show ?thesis
    proof (cases "find_lean e i w")
      case None
      with x miss db [of i] Cons [of "w\<lparr>trace := trace w @ [Db (DFindById i)]\<rparr>"]
      show ?thesis
        by (simp add: call_def Let_def)
    next
      case (Some dbRoom)
      with x miss db [of i] rs [of "detail_key i"]
        Cons [of "w\<lparr>trace := trace w @ [Db (DFindById i), Redis (RSet (detail_key i) 3600)],
                   details := (details w)(detail_key i \<mapsto> (dbRoom, 3600))\<rparr>"]
      show ?thesis
        by (simp add: call_def Let_def fun_upd_def cong: if_cong)
    qed
  qed
qed

lemma detail_key_inj [simp]: "detail_key i = detail_key j \<longleftrightarrow> i = j"
  by (simp add: detail_key_def)

lemma repair_writes_keep:
  "m (detail_key i) = Some (d, 3600) \<Longrightarrow> look i = Some d
   \<Longrightarrow> repair_writes look xs m (detail_key i) = Some (d, 3600)"
proof (induction look xs m rule: repair_writes.induct)
  case (1 look m)
  then show ?case by simp
next
  case (2 look j c xs m)
  then show ?case by simp
next
  case (3 look j xs m)
  show ?case
  proof (cases "look j")
    case None
    with 3 show ?thesis by simp
  next
    case (Some dj)
    have "(m(detail_key j \<mapsto> (dj, 3600))) (detail_key i) = Some (d, 3600)"
      using 3(3,4) Some by (cases "i = j") simp_all
    with 3(2) [OF Some this 3(4)] Some show ?thesis by (simp add: fun_upd_def)
  qed
qed

lemma repair_writes_miss:
  "(i, None) \<in> set xs \<Longrightarrow> look i = Some d
   \<Longrightarrow> repair_writes look xs m (detail_key i) = Some (d, 3600)"
  by (induction look xs m rule: repair_writes.induct)
     (auto split: option.splits simp add: repair_writes_keep)

lemma repair_writes_other:
  "(\<And>i d. (i, None) \<in> set xs \<Longrightarrow> look i = Some d \<Longrightarrow> k \<noteq> detail_key i)
   \<Longrightarrow> repair_writes look xs m k = m k"
  by (induction look xs m rule: repair_writes.induct) (auto split: option.splits)

lemma zip_with_map: "zip xs (map f xs) = map (\<lambda>x. (x, f x)) xs"
  by (induction xs) simp_all


lemma get_details_no_faults:
  assumes "\<And>k. \<not> redis_fails e (RGet k)"
  shows "get_details e ids w =
     (Some (map (\<lambda>i. map_option fst (details w (detail_key i))) ids),
      w\<lparr>trace := trace w @ map (\<lambda>i. Redis (RGet (detail_key i))) ids\<rparr>)"
  using assms by (simp add: get_details_def list_ex_iff Let_def)

lemma repaired_cached:
  "repaired (\<lambda>i. find_lean e i w) (i, map_option fst (details w (detail_key i)))
     = spec_detail_lookup e w i"
  by (cases "details w (detail_key i)") (auto simp add: spec_detail_lookup_def)

lemma repair_events_cached:
  "repair_events (\<lambda>i. find_lean e i w) (i, map_option fst (details w (detail_key i)))
     = spec_repair_calls e w i"
  by (cases "details w (detail_key i)") (auto simp add: spec_repair_calls_def)

lemma miss_in_zip:
  "(i, None) \<in> set (zip ids (map (\<lambda>i. map_option fst (details w (detail_key i))) ids))
     \<longleftrightarrow> i \<in> set ids \<and> details w (detail_key i) = None"
  by (auto simp add: zip_with_map)

text \<open>The path through the index when no call fails: the response and the world it
  leaves, in closed form.\<close>

lemma list_from_index_no_faults:
  assumes r: "\<And>c. \<not> redis_fails e c" and d: "\<And>c. \<not> db_fails e c"
  shows "list_from_index e pg sz w =
     (let ids = zrevrange (ids_index w) (pg * sz) (pg * sz + sz - 1);
          xs = zip ids (map (\<lambda>i. map_option fst (details w (detail_key i))) ids);
          look = (\<lambda>i. find_lean e i w);
          found = List.map_filter (\<lambda>r. r) (map (repaired look) xs)
      in (ListB \<lparr>rows = found,
                 metadata = page_meta_of (zcard (ids_index w)) pg sz (int (length found))
                   ''createdAt'' ''desc''\<rparr>,
          w\<lparr>details := repair_writes look xs (details w),
            trace := trace w @ [Redis RConnect, Redis (RZRevRange ids_key (pg * sz) (pg * sz + sz - 1))]
              @ map (\<lambda>i. Redis (RGet (detail_key i))) ids
              @ concat (map (repair_events look) xs)
              @ [Redis (RZCard ids_key)]\<rparr>))"
  by (simp add: list_from_index_def Let_def call_def r get_details_no_faults
      repair_no_faults [OF d r])


lemma set_insert_by [simp]: "set (insert_by le x xs) = insert x (set xs)"
  by (induction xs) auto

lemma set_sort_by [simp]: "set (sort_by le xs) = set xs"
  by (induction xs) (simp_all add: sort_by_def)

lemma sorted_insert_by:
  assumes total: "\<And>a b. le a b \<or> le b a" and trans: "\<And>a b c. le a b \<Longrightarrow> le b c \<Longrightarrow> le a c"
  shows "sorted_wrt le xs \<Longrightarrow> sorted_wrt le (insert_by le x xs)"
proof (induction xs)
  case Nil
  show ?case by simp
next
  case (Cons y ys)
  show ?case
  proof (cases "le x y")
    case True
    with Cons.prems trans [of x y] show ?thesis by auto
  next
    case False
    with total [of x y] have "le y x" by blast
    with False Cons show ?thesis by auto
  qed
qed

lemma sorted_sort_by:
  assumes "\<And>a b. le a b \<or> le b a" and "\<And>a b c. le a b \<Longrightarrow> le b c \<Longrightarrow> le a c"
  shows "sorted_wrt le (sort_by le xs)"
proof (induction xs)
  case Nil
  show ?case by (simp add: sort_by_def)
next
  case (Cons x xs)
  from sorted_insert_by [of le "sort_by le xs" x, OF assms Cons]
  show ?case by (simp add: sort_by_def)
qed

lemma zrev_sorted: "sorted_wrt zrev_le (sort_by zrev_le z)"
  by (rule sorted_sort_by) (auto simp add: zrev_le_def)

lemma zrev_descending: "sorted_wrt (\<lambda>a b. snd b \<le> snd a) (sort_by zrev_le z)"
  by (rule sorted_wrt_mono_rel [OF _ zrev_sorted]) (auto simp add: zrev_le_def)

lemma zrevrange_window:
  assumes "0 \<le> start" and "1 \<le> sz"
  shows "zrevrange z start (start + sz - 1) = take (nat sz) (drop (nat start) (zrev_members z))"
proof -
  let ?xs = "zrev_members z"
  let ?n = "int (length ?xs)"
  show ?thesis
  proof (cases "?n \<le> start")
    case True
    then have "drop (nat start) ?xs = []" by simp
    with True assms show ?thesis by (simp add: zrevrange_def Let_def)
  next
    case False
    show ?thesis
    proof (cases "start + sz - 1 \<le> ?n - 1")
      case True
      with False assms have "min (start + sz - 1) (?n - 1) - start + 1 = sz" by simp
      with False True assms show ?thesis by (simp add: zrevrange_def Let_def)
    next
      case over: False
      with False assms have m: "min (start + sz - 1) (?n - 1) - start + 1 = ?n - start" by simp
      have "length (drop (nat start) ?xs) \<le> nat (?n - start)" using assms by simp
      moreover have "length (drop (nat start) ?xs) \<le> nat sz" using over assms by simp
      ultimately show ?thesis using False over assms m
        by (simp add: zrevrange_def Let_def)
    qed
  qed
qed

lemma norm_pageSize_pos: "1 \<le> norm_pageSize q"
  by (simp add: norm_pageSize_def)

lemma window_descending:
  "\<exists>ps. spec_window_ids q w = map fst ps \<and> sorted_wrt (\<lambda>a b. snd b \<le> snd a) ps
        \<and> set ps \<subseteq> set (ids_index w)"
proof -
  let ?ps = "take (nat (norm_pageSize q)) (drop (nat (norm_page q * norm_pageSize q)) (sort_by zrev_le (ids_index w)))"
  have "0 \<le> norm_page q * norm_pageSize q"
    using norm_page_nonneg [of q] norm_pageSize_pos [of q] by simp
  then have "spec_window_ids q w = map fst ?ps"
    using norm_pageSize_pos [of q]
    by (simp add: spec_window_ids_def zrevrange_window zrev_members_def take_map drop_map)
  moreover have "sorted_wrt (\<lambda>a b. snd b \<le> snd a) ?ps"
    by (intro sorted_wrt_take sorted_wrt_drop zrev_descending)
  moreover have "set ?ps \<subseteq> set (ids_index w)"
    using set_take_subset set_drop_subset set_sort_by by fastforce
  ultimately show ?thesis by blast
qed


lemma detail_key_not_cache_key: "detail_key i \<noteq> cache_key pg sz field ord search"
  by (simp add: detail_key_def cache_key_def)

lemma detail_key_not_ids_key: "cache_key pg sz field ord search \<noteq> ids_key"
  by (simp add: ids_key_def cache_key_def)

text \<open>Claim C6: a listing request with an empty search term, in the split-cache variant
  and when no call fails, reads the rank window
  \<open>[page * pageSize, page * pageSize + pageSize - 1]\<close> of the sorted index with
  \<open>ZREVRANGE\<close>, reads the detail entry of each identifier, fetches each missing one from
  the store and writes it back with a time to live of 3600 seconds, takes the total from
  \<open>ZCARD\<close>, and answers with these rows and that total. The trace lists every call: none
  touches a key of the aggregate cache, whose entries are left as they were.\<close>

theorem c6_default_listing:
  assumes s: "norm_search q = []"
    and r: "\<forall>c. \<not> redis_fails e c" and d: "\<forall>c. \<not> db_fails e c"
  shows "(\<exists>w'. list_rooms_B e uid q w =
            (ListB \<lparr>rows = List.map_filter (spec_detail_lookup e w) (spec_window_ids q w),
                    metadata = page_meta_of (zcard (ids_index w)) (norm_page q) (norm_pageSize q)
                      (int (length (List.map_filter (spec_detail_lookup e w) (spec_window_ids q w))))
                      ''createdAt'' ''desc''\<rparr>, w')
          \<and> trace w' = trace w
               @ [Redis RConnect,
                  Redis (RZRevRange ids_key (norm_page q * norm_pageSize q)
                           (norm_page q * norm_pageSize q + norm_pageSize q - 1))]
               @ map (\<lambda>i. Redis (RGet (detail_key i))) (spec_window_ids q w)
               @ concat (map (spec_repair_calls e w) (spec_window_ids q w))
               @ [Redis (RZCard ids_key)]
          \<and> (\<forall>i \<in> set (spec_window_ids q w). details w (detail_key i) = None
                \<longrightarrow> details w' (detail_key i) = map_option (\<lambda>d. (d, 3600)) (find_lean e i w))
          \<and> (\<forall>k. details w k \<noteq> None \<or> k \<notin> detail_key ` set (spec_window_ids q w)
                \<longrightarrow> details w' k = details w k)
          \<and> pages w' = pages w \<and> rooms w' = rooms w \<and> users w' = users w
          \<and> ids_index w' = ids_index w)
       \<and> (\<exists>ps. spec_window_ids q w = map fst ps \<and> sorted_wrt (\<lambda>a b. snd b \<le> snd a) ps
                \<and> set ps \<subseteq> set (ids_index w))"
proof -
  let ?ids = "spec_window_ids q w"
  let ?xs = "zip ?ids (map (\<lambda>i. map_option fst (details w (detail_key i))) ?ids)"
  let ?look = "\<lambda>i. find_lean e i w"
  let ?w' = "w\<lparr>details := repair_writes ?look ?xs (details w),
            trace := trace w @ [Redis RConnect,
                  Redis (RZRevRange ids_key (norm_page q * norm_pageSize q)
                           (norm_page q * norm_pageSize q + norm_pageSize q - 1))]
              @ map (\<lambda>i. Redis (RGet (detail_key i))) ?ids
              @ concat (map (repair_events ?look) ?xs)
              @ [Redis (RZCard ids_key)]\<rparr>"
  have rows: "map (repaired ?look) ?xs = map (spec_detail_lookup e w) ?ids"
    by (simp add: zip_with_map repaired_cached)
  have calls: "map (repair_events ?look) ?xs = map (spec_repair_calls e w) ?ids"
    by (simp add: zip_with_map repair_events_cached)
  have mf: "List.map_filter (\<lambda>r. r) (map f ys) = List.map_filter f ys" for f :: "oid \<Rightarrow> cached_room option" and ys
    by (induction ys) (simp_all add: List.map_filter_simps split: option.splits)
  have run: "list_rooms_B e uid q w =
            (ListB \<lparr>rows = List.map_filter (spec_detail_lookup e w) ?ids,
                    metadata = page_meta_of (zcard (ids_index w)) (norm_page q) (norm_pageSize q)
                      (int (length (List.map_filter (spec_detail_lookup e w) ?ids)))
                      ''createdAt'' ''desc''\<rparr>, ?w')"
    using r d s
    by (simp add: list_rooms_B_def list_from_index_no_faults Let_def rows mf
        spec_window_ids_def [symmetric])
  have repaired: "details ?w' (detail_key i) = map_option (\<lambda>d. (d, 3600)) (find_lean e i w)"
    if "i \<in> set ?ids" and "details w (detail_key i) = None" for i
  proof (cases "find_lean e i w")
    case None
    have "repair_writes ?look ?xs (details w) (detail_key i) = details w (detail_key i)"
      by (rule repair_writes_other) (use None in auto)
    with that None show ?thesis by simp
  next
    case (Some dbRoom)
    from that have "(i, None) \<in> set ?xs" by (simp add: miss_in_zip)
    then have "repair_writes ?look ?xs (details w) (detail_key i) = Some (dbRoom, 3600)"
      using Some by (rule repair_writes_miss)
    with Some show ?thesis by simp
  qed
  have kept: "details ?w' k = details w k"
    if "details w k \<noteq> None \<or> k \<notin> detail_key ` set ?ids" for k
  proof -
    have "repair_writes ?look ?xs (details w) k = details w k"
    proof (rule repair_writes_other)
      fix i dbRoom
      assume "(i, None) \<in> set ?xs"
      then have "i \<in> set ?ids \<and> details w (detail_key i) = None" by (simp add: miss_in_zip)
      with that show "k \<noteq> detail_key i" by auto
    qed
    then show ?thesis by simp
  qed
  show ?thesis
  proof (intro conjI window_descending exI [of _ ?w'])
    show "list_rooms_B e uid q w =
            (ListB \<lparr>rows = List.map_filter (spec_detail_lookup e w) ?ids,
                    metadata = page_meta_of (zcard (ids_index w)) (norm_page q) (norm_pageSize q)
                      (int (length (List.map_filter (spec_detail_lookup e w) ?ids)))
                      ''createdAt'' ''desc''\<rparr>, ?w')"
      by (rule run)
    show "trace ?w' = trace w
               @ [Redis RConnect,
                  Redis (RZRevRange ids_key (norm_page q * norm_pageSize q)
                           (norm_page q * norm_pageSize q + norm_pageSize q - 1))]
               @ map (\<lambda>i. Redis (RGet (detail_key i))) ?ids
               @ concat (map (spec_repair_calls e w) ?ids)
               @ [Redis (RZCard ids_key)]"
      by (simp add: calls)
    show "\<forall>i \<in> set ?ids. details w (detail_key i) = None
                \<longrightarrow> details ?w' (detail_key i) = map_option (\<lambda>d. (d, 3600)) (find_lean e i w)"
      using repaired by blast
    show "\<forall>k. details w k \<noteq> None \<or> k \<notin> detail_key ` set ?ids
                \<longrightarrow> details ?w' k = details w k"
      using kept by blast
  qed simp_all
qed


lemma env_ok_no_faults: "(\<forall>c. \<not> redis_fails env_ok c) \<and> (\<forall>c. \<not> db_fails env_ok c)"
  by (simp add: env_ok_def)

lemma warm_window: "spec_window_ids q_default world_warm = [''r2'', ''r1'']"
  by (simp add: spec_window_ids_def q_default_def world_warm_def world_two_def norm_page_def
      norm_pageSize_def parse_or_def zrevrange_def zrev_members_def sort_by_def zrev_le_def)

lemma warm_details:
  "details world_warm ''chat:room:r1'' = Some (alpha_cached, 1200)"
  "details world_warm ''chat:room:r2'' = None"
  by (simp_all add: world_warm_def world_two_def)

lemma warm_store: "find_lean env_ok ''r2'' world_warm = Some beta_lean"
  by (simp add: find_lean_def find_room_def world_warm_def world_two_def room_alpha_def
      room_beta_def beta_lean_def env_ok_def default_projection_def populate_creator_def
      map_participants_def find_user_def alice_def bob_def)

text \<open>Claim C6 at a world whose index holds two rooms, the detail entry of the older one
  cached and that of the newer one missing.\<close>

theorem c6_default_listing_witness:
  "norm_search q_default = []
   \<and> fst (list_rooms_B env_ok ''u1'' q_default world_warm)
       = ListB \<lparr>rows = [beta_lean, alpha_cached],
                metadata = \<lparr>total = 2, page = 0, pageSize = 10, totalPages = 1, hasMore = False,
                  currentCount = 2, sort_field = ''createdAt'', sort_order = ''desc''\<rparr>\<rparr>
   \<and> trace (snd (list_rooms_B env_ok ''u1'' q_default world_warm))
       = [Redis RConnect, Redis (RZRevRange ''chat:rooms:ids'' 0 9),
          Redis (RGet ''chat:room:r2''), Redis (RGet ''chat:room:r1''),
          Db (DFindById ''r2''), Redis (RSet ''chat:room:r2'' 3600),
          Redis (RZCard ''chat:rooms:ids'')]
   \<and> details (snd (list_rooms_B env_ok ''u1'' q_default world_warm)) ''chat:room:r2''
       = Some (beta_lean, 3600)
   \<and> details (snd (list_rooms_B env_ok ''u1'' q_default world_warm)) ''chat:room:r1''
       = Some (alpha_cached, 1200)"
proof -
  have s: "norm_search q_default = []"
    by (simp add: norm_search_def q_default_def str_or_empty_def)
  have n: "norm_page q_default = 0" "norm_pageSize q_default = 10"
    by (simp_all add: norm_page_def norm_pageSize_def parse_or_def q_default_def)
  have z: "zcard (ids_index world_warm) = 2" "trace world_warm = []"
    by (simp_all add: zcard_def world_warm_def world_two_def)
  have k: "detail_key ''r1'' = ''chat:room:r1'' \<and> detail_key ''r2'' = ''chat:room:r2''
      \<and> ids_key = ''chat:rooms:ids''"
    by (simp add: detail_key_def ids_key_def)
  note t = c6_default_listing [OF s env_ok_no_faults [THEN conjunct1]
      env_ok_no_faults [THEN conjunct2], of "''u1''" world_warm, THEN conjunct1,
      unfolded warm_window n z]
  then obtain w' where run: "list_rooms_B env_ok ''u1'' q_default world_warm =
            (ListB \<lparr>rows = List.map_filter (spec_detail_lookup env_ok world_warm) [''r2'', ''r1''],
                    metadata = page_meta_of 2 0 10
                      (int (length (List.map_filter (spec_detail_lookup env_ok world_warm) [''r2'', ''r1''])))
                      ''createdAt'' ''desc''\<rparr>, w')"
    and tr: "trace w' = [] @ [Redis RConnect, Redis (RZRevRange ids_key (0 * 10) (0 * 10 + 10 - 1))]
               @ map (\<lambda>i. Redis (RGet (detail_key i))) [''r2'', ''r1'']
               @ concat (map (spec_repair_calls env_ok world_warm) [''r2'', ''r1''])
               @ [Redis (RZCard ids_key)]"
    and miss: "\<forall>i \<in> set [''r2'', ''r1'']. details world_warm (detail_key i) = None
                \<longrightarrow> details w' (detail_key i) = map_option (\<lambda>d. (d, 3600)) (find_lean env_ok i world_warm)"
    and keep: "\<forall>k. details world_warm k \<noteq> None \<or> k \<notin> detail_key ` set [''r2'', ''r1'']
                \<longrightarrow> details w' k = details world_warm k"
    by blast
  have rows: "List.map_filter (spec_detail_lookup env_ok world_warm) [''r2'', ''r1'']
      = [beta_lean, alpha_cached]"
    by (simp add: List.map_filter_simps spec_detail_lookup_def warm_details warm_store k)
  have calls: "concat (map (spec_repair_calls env_ok world_warm) [''r2'', ''r1''])
      = [Db (DFindById ''r2''), Redis (RSet ''chat:room:r2'' 3600)]"
    by (simp add: spec_repair_calls_def warm_details warm_store k)
  from miss have "details w' ''chat:room:r2'' = Some (beta_lean, 3600)"
    by (simp add: warm_details warm_store k)
  moreover from keep have "details w' ''chat:room:r1'' = Some (alpha_cached, 1200)"
    by (simp add: warm_details k)
  ultimately show ?thesis
    using s run tr rows calls k
    by (simp add: page_meta_of_def ceil_div_def)
qed

subsection \<open>The handlers of the aggregate-cache variant in closed form\<close>

text \<open>Every call to the cache has its own \<^verbatim>\<open>try/catch\<close> in this variant: when Redis
  rejects every call and the store answers, a listing is the page computed from the
  store.\<close>

lemma list_rooms_A_without_cache:
  assumes "\<forall>c. redis_fails e c" and "\<forall>c. \<not> db_fails e c"
  shows "fst (list_rooms_A e uid q w) = ListA (compute_page_A uid q w)"
  using assms
  by (simp add: list_rooms_A_def cache_get_A_def cache_set_A_def call_def compute_page_A_def Let_def)

text \<open>The response of a creation, in this variant, does not depend on which calls to
  Redis fail.\<close>

lemma create_room_A_ignores_cache:
  "fst (create_room_A (e\<lparr>redis_fails := f\<rparr>) uid b w) = fst (create_room_A e uid b w)"
  by (simp add: create_room_A_def new_room_def save_new_def find_populated_def Let_def
      split: option.splits)

lemma compute_page_A_frame [simp]:
  "compute_page_A uid q (w\<lparr>trace := t\<rparr>) = compute_page_A uid q w"
  "compute_page_A uid q (w\<lparr>pages := p\<rparr>) = compute_page_A uid q w"
  by (simp_all add: compute_page_A_def)

text \<open>The listing of the aggregate-cache variant on a hit and on a miss, in closed form.\<close>

lemma list_rooms_A_hit:
  assumes "k = cache_key (norm_page q) (norm_pageSize q) (norm_sortField q) (norm_sortOrder q) (norm_search q)"
    and "\<not> redis_fails e (RGet k)" and "pages w k = Some (p, ttl)"
  shows "list_rooms_A e uid q w = (ListA p, w\<lparr>trace := trace w @ [Redis (RGet k)]\<rparr>)"
  using assms by (simp add: list_rooms_A_def cache_get_A_def call_def Let_def)

lemma list_rooms_A_miss:
  assumes "k = cache_key (norm_page q) (norm_pageSize q) (norm_sortField q) (norm_sortOrder q) (norm_search q)"
    and "\<forall>c. \<not> redis_fails e c" and "\<forall>c. \<not> db_fails e c" and "pages w k = None"
  shows "list_rooms_A e uid q w =
     (ListA (compute_page_A uid q w),
      w\<lparr>trace := trace w @ [Redis (RGet k), Db (DCount (norm_search q)),
            Db (DAggregate (norm_search q) (norm_sortField q) (norm_sortOrder q)
                  (norm_page q * norm_pageSize q) (norm_pageSize q)),
            Redis (RSet k 60)],
        pages := (pages w)(k \<mapsto> (compute_page_A uid q w, 60))\<rparr>)"
  using assms by (simp add: list_rooms_A_def cache_get_A_def cache_set_A_def call_def Let_def)

lemma find_room_append:
  "find_room i rs = None \<Longrightarrow> room_id r = i \<Longrightarrow> find_room i (rs @ [r]) = Some r"
  by (induction rs) (auto simp add: find_room_def)

text \<open>A creation of the aggregate-cache variant that meets no failure, in closed form.\<close>

lemma create_room_A_ok:
  assumes "\<not> blank_name (b_name b)" and "\<forall>c. \<not> db_fails e c"
    and "find_room (fresh_id e) (rooms w) = None" and "\<not> redis_fails e (RDel first_page_key)"
  shows "create_room_A e uid b w =
     (Created (strip_password (default_projection (hide_password e)
        (populate_participants (users w) (populate_creator (users w) (new_room e uid b))))),
      w\<lparr>rooms := rooms w @ [new_room e uid b],
        trace := trace w @ [Db (DSave (fresh_id e)), Db (DFindById (fresh_id e))]
          @ (if io_ready e
             then [EmitCreated ''room-list'' (strip_password (default_projection (hide_password e)
               (populate_participants (users w) (populate_creator (users w) (new_room e uid b)))))]
             else [])
          @ [Redis (RDel first_page_key)],
        pages := (pages w)(first_page_key := None)\<rparr>)"
proof -
  have i: "room_id (new_room e uid b) = fresh_id e"
    by (simp add: new_room_def)
  from assms i show ?thesis
    by (simp add: create_room_A_def save_new_def find_populated_def cache_del_A_def call_def
        Let_def find_room_append)
qed

text \<open>A creation of this variant leaves every page of the cache but the one of
  line 229 as it was, whatever the outcome.\<close>

lemma create_room_A_keeps_other_pages:
  "k \<noteq> first_page_key \<Longrightarrow> pages (snd (create_room_A e uid b w)) k = pages w k"
  by (simp add: create_room_A_def save_new_def cache_del_A_def call_def Let_def
      split: option.splits)

subsection \<open>The split-cache variant when Redis cannot be reached\<close>

text \<open>No call to Redis has a handler of its own in this variant: a rejected
  \<^verbatim>\<open>connect\<close> ends a listing without search term, and a creation with a valid name, in the
  500 response.\<close>

lemma list_rooms_B_needs_redis:
  "norm_search q = [] \<Longrightarrow> redis_fails e RConnect
   \<Longrightarrow> fst (list_rooms_B e uid q w) = RoomsFetchError"
  by (simp add: list_rooms_B_def list_from_index_def fetch_error_def Let_def)

lemma create_room_B_needs_redis:
  "\<not> blank_name (b_name b) \<Longrightarrow> redis_fails e RConnect
   \<Longrightarrow> fst (create_room_B e uid b w) = ServerError"
  by (simp add: create_room_B_def create_error_def mirror_room_def Let_def
      split: option.splits)

subsection \<open>Where the code departs from the specification\<close>

lemma q_by_name_norm:
  "norm_page q_by_name = 0" "norm_pageSize q_by_name = 10" "norm_sortField q_by_name = ''name''"
  "norm_sortOrder q_by_name = ''asc''" "norm_search q_by_name = []"
  by (simp_all add: q_by_name_def norm_page_def norm_pageSize_def norm_sortField_def
      norm_sortOrder_def norm_search_def parse_or_def str_or_empty_def)

lemma q_by_name_key:
  "cache_key (norm_page q_by_name) (norm_pageSize q_by_name) (norm_sortField q_by_name)
        (norm_sortOrder q_by_name) (norm_search q_by_name) = name_key"
  unfolding q_by_name_norm by code_simp

lemma world_one_fields:
  "rooms world_one = [room_alpha]" "users world_one = [alice, bob]" "pages world_one = Map.empty"
  "trace world_one = []"
  by (simp_all add: world_one_def)

lemma world_listed_eq:
  "world_listed = world_one\<lparr>
     trace := [Redis (RGet name_key), Db (DCount []), Db (DAggregate [] ''name'' ''asc'' 0 10),
               Redis (RSet name_key 60)],
     pages := [name_key \<mapsto> (compute_page_A ''u1'' q_by_name world_one, 60)]\<rparr>"
  using list_rooms_A_miss [OF q_by_name_key [symmetric] env_ok_no_faults [THEN conjunct1]
      env_ok_no_faults [THEN conjunct2], of world_one "''u1''"]
  by (simp add: world_listed_def world_one_fields q_by_name_norm)

lemma world_listed_fields:
  "rooms world_listed = [room_alpha]" "users world_listed = [alice, bob]"
  "pages world_listed = [name_key \<mapsto> (compute_page_A ''u1'' q_by_name world_one, 60)]"
  by (simp_all add: world_listed_eq world_one_fields)

lemma body_gamma_ok: "\<not> blank_name (b_name body_gamma)"
  by (simp add: body_gamma_def blank_name_def trim_def is_ws_def)

lemma create_on_listed:
  "create_room_A env_ok ''u2'' body_gamma world_listed =
     (Created gamma_doc,
      world_listed\<lparr>rooms := [room_alpha, new_room env_ok ''u2'' body_gamma],
        trace := trace world_listed @ [Db (DSave ''r9''), Db (DFindById ''r9''),
          EmitCreated ''room-list'' gamma_doc, Redis (RDel first_page_key)],
        pages := (pages world_listed)(first_page_key := None)\<rparr>)"
proof -
  have g: "strip_password (default_projection (hide_password env_ok)
        (populate_participants [alice, bob] (populate_creator [alice, bob]
           (new_room env_ok ''u2'' body_gamma)))) = gamma_doc"
    by (simp add: strip_password_def default_projection_def
        populate_participants_def populate_creator_def new_room_def env_ok_def body_gamma_def
        gamma_doc_def find_user_def alice_def bob_def List.map_filter_simps trim_def is_ws_def
        str_or_empty_def)
  have f: "find_room (fresh_id env_ok) (rooms world_listed) = None"
    by (simp add: world_listed_fields find_room_def room_alpha_def env_ok_def)
  have r: "\<not> redis_fails env_ok (RDel first_page_key)" "io_ready env_ok" "fresh_id env_ok = ''r9''"
    by (simp_all add: env_ok_def)
  from create_room_A_ok [OF body_gamma_ok env_ok_no_faults [THEN conjunct2] f r(1), of "''u2''"]
  show ?thesis
    by (simp add: g r world_listed_fields)
qed

text \<open>Claim C1 at a failing input (aggregate-cache variant). Alice lists the rooms by
  name, which caches the page under the signature of that query; bob creates a room, and
  the store write succeeds; alice repeats her request. The creation deletes the one key
  \<^verbatim>\<open>chat:rooms:list:page=0:size=10:sort=createdAt:desc:search=\<close> (line 229), so the entry of
  alice's query is still there and is served as it is, with the total 1, by a request
  that issues no call to the store, while the store holds two rooms.\<close>

theorem c1_stale_page_survives_creation:
  "status (fst (create_room_A env_ok ''u2'' body_gamma world_listed)) = 201
   \<and> map room_id (rooms world_created) = [''r1'', ''r9'']
   \<and> cache_key (norm_page q_by_name) (norm_pageSize q_by_name) (norm_sortField q_by_name)
        (norm_sortOrder q_by_name) (norm_search q_by_name) = name_key
   \<and> map_option fst (pages world_created name_key)
        = Some (compute_page_A ''u1'' q_by_name world_one)
   \<and> fst (list_rooms_A env_ok ''u1'' q_by_name world_created)
        = ListA (compute_page_A ''u1'' q_by_name world_one)
   \<and> total (metadata (compute_page_A ''u1'' q_by_name world_one)) = 1
   \<and> total (metadata (compute_page_A ''u1'' q_by_name world_created)) = 2
   \<and> drop (length (trace world_created))
        (trace (snd (list_rooms_A env_ok ''u1'' q_by_name world_created)))
        = [Redis (RGet name_key)]"
proof -
  have keys: "name_key \<noteq> first_page_key"
    by (simp add: name_key_def first_page_key_def)
  have created: "world_created =
      world_listed\<lparr>rooms := [room_alpha, new_room env_ok ''u2'' body_gamma],
        trace := trace world_listed @ [Db (DSave ''r9''), Db (DFindById ''r9''),
          EmitCreated ''room-list'' gamma_doc, Redis (RDel first_page_key)],
        pages := (pages world_listed)(first_page_key := None)\<rparr>"
    by (simp add: world_created_def create_on_listed)
  have cached: "pages world_created name_key
      = Some (compute_page_A ''u1'' q_by_name world_one, 60)"
    using keys by (simp add: created world_listed_fields)
  have g: "\<not> redis_fails env_ok (RGet name_key)"
    by (simp add: env_ok_def)
  note hit = list_rooms_A_hit [OF q_by_name_key [symmetric] g cached, of "''u1''"]
  have t1: "total (metadata (compute_page_A ''u1'' q_by_name world_one)) = 1"
    by (simp add: compute_page_A_def page_meta_of_def matching_def q_by_name_norm
        world_one_fields Let_def)
  have t2: "total (metadata (compute_page_A ''u1'' q_by_name world_created)) = 2"
    by (simp add: compute_page_A_def page_meta_of_def matching_def q_by_name_norm
        created Let_def)
  have ids: "map room_id (rooms world_created) = [''r1'', ''r9'']"
    by (simp add: created room_alpha_def new_room_def env_ok_def)
  show ?thesis
    by (simp add: create_on_listed q_by_name_key cached hit t1 t2 ids)
qed

lemma q_default_norm:
  "norm_page q_default = 0" "norm_pageSize q_default = 10" "norm_sortField q_default = ''createdAt''"
  "norm_sortOrder q_default = ''desc''" "norm_search q_default = []"
  by (simp_all add: q_default_def norm_page_def norm_pageSize_def norm_sortField_def
      norm_sortOrder_def norm_search_def parse_or_def str_or_empty_def)

lemma q_default_key:
  "cache_key (norm_page q_default) (norm_pageSize q_default) (norm_sortField q_default)
        (norm_sortOrder q_default) (norm_search q_default) = first_page_key"
  unfolding q_default_norm first_page_key_def by code_simp

lemma alice_lists:
  "list_rooms_A env_ok ''u1'' q_default world_one =
     (ListA (compute_page_A ''u1'' q_default world_one),
      world_one\<lparr>trace := [Redis (RGet first_page_key), Db (DCount []),
            Db (DAggregate [] ''createdAt'' ''desc'' 0 10), Redis (RSet first_page_key 60)],
        pages := [first_page_key \<mapsto> (compute_page_A ''u1'' q_default world_one, 60)]\<rparr>)"
  using list_rooms_A_miss [OF q_default_key [symmetric] env_ok_no_faults [THEN conjunct1]
      env_ok_no_faults [THEN conjunct2], of world_one "''u1''"]
  by (simp add: world_one_fields q_default_norm)

lemma rows_for:
  "map (\<lambda>r. (s_id r, s_creator_id r, s_isCreator r)) (rows (compute_page_A uid q_default world_one))
     = [(''r1'', ''u1'', ''u1'' = uid)]"
  by (simp add: compute_page_A_def q_default_norm world_one_fields matching_def
      aggregate_rooms_def sort_stage_def sort_by_def safe_room_def room_alpha_def find_user_def
      alice_def bob_def or_str_def Let_def)

text \<open>Claim C2 at a failing input (aggregate-cache variant). Alice, the creator of the one
  room, lists the rooms; bob sends the same query. Bob is answered with the page cached
  for alice, whose \<open>isCreator\<close> flag is true, although the page computed for bob has it
  false: the signature of line 89 does not hold the principal.\<close>

theorem c2_cached_flag_of_other_principal:
  "creator room_alpha = ''u1''
   \<and> fst (list_rooms_A env_ok ''u1'' q_default world_one)
        = ListA (compute_page_A ''u1'' q_default world_one)
   \<and> fst (list_rooms_A env_ok ''u2'' q_default world_seen_by_alice)
        = ListA (compute_page_A ''u1'' q_default world_one)
   \<and> map (\<lambda>r. (s_id r, s_creator_id r, s_isCreator r))
        (rows (compute_page_A ''u1'' q_default world_one)) = [(''r1'', ''u1'', True)]
   \<and> map (\<lambda>r. (s_id r, s_creator_id r, s_isCreator r))
        (rows (compute_page_A ''u2'' q_default world_seen_by_alice)) = [(''r1'', ''u1'', False)]"
proof -
  have seen: "world_seen_by_alice =
      world_one\<lparr>trace := [Redis (RGet first_page_key), Db (DCount []),
            Db (DAggregate [] ''createdAt'' ''desc'' 0 10), Redis (RSet first_page_key 60)],
        pages := [first_page_key \<mapsto> (compute_page_A ''u1'' q_default world_one, 60)]\<rparr>"
    by (simp add: world_seen_by_alice_def alice_lists)
  have cached: "pages world_seen_by_alice first_page_key
      = Some (compute_page_A ''u1'' q_default world_one, 60)"
    by (simp add: seen)
  have g: "\<not> redis_fails env_ok (RGet first_page_key)"
    by (simp add: env_ok_def)
  note hit = list_rooms_A_hit [OF q_default_key [symmetric] g cached, of "''u2''"]
  have fresh: "compute_page_A ''u2'' q_default world_seen_by_alice
      = compute_page_A ''u2'' q_default world_one"
    by (simp add: seen)
  show ?thesis
    by (simp add: alice_lists hit fresh rows_for room_alpha_def)
qed

text \<open>Claim C3 at a failing input (split-cache variant). With Redis unreachable, a listing
  with the default parameters is answered 500 after the rejected \<^verbatim>\<open>connect\<close>, or after
  the rejected \<^verbatim>\<open>ZREVRANGE\<close> when the connection is still handed out: the calls of lines
  451-470 stand inside the \<^verbatim>\<open>try\<close> of the request with no handler of their own.
  The aggregate-cache variant answers the same request with the page of the store.\<close>

theorem c3_listing_fails_when_cache_down:
  "norm_search q_default = []
   \<and> fst (list_rooms_B env_redis_down ''u1'' q_default world_two) = RoomsFetchError
   \<and> status RoomsFetchError = 500
   \<and> trace (snd (list_rooms_B env_redis_down ''u1'' q_default world_two))
        = [Redis RConnect, LogError RoomsFetchFailed]
   \<and> fst (list_rooms_B env_redis_flaky ''u1'' q_default world_two) = RoomsFetchError
   \<and> trace (snd (list_rooms_B env_redis_flaky ''u1'' q_default world_two))
        = [Redis RConnect, Redis (RZRevRange ''chat:rooms:ids'' 0 9), LogError RoomsFetchFailed]
   \<and> fst (list_rooms_A env_redis_down ''u1'' q_default world_two)
        = ListA (compute_page_A ''u1'' q_default world_two)"
proof -
  have down: "\<forall>c. redis_fails env_redis_down c" and db: "\<forall>c. \<not> db_fails env_redis_down c"
    by (simp_all add: env_redis_down_def env_ok_def)
  have b: "list_rooms_B env_redis_down ''u1'' q_default world_two
      = (RoomsFetchError, world_two\<lparr>trace := [Redis RConnect, LogError RoomsFetchFailed]\<rparr>)"
    using down
    by (simp add: list_rooms_B_def list_from_index_def fetch_error_def call_def q_default_norm
        world_two_def Let_def)
  have c: "list_rooms_B env_redis_flaky ''u1'' q_default world_two
      = (RoomsFetchError, world_two\<lparr>trace := [Redis RConnect,
           Redis (RZRevRange ''chat:rooms:ids'' 0 9), LogError RoomsFetchFailed]\<rparr>)"
    by (simp add: list_rooms_B_def list_from_index_def fetch_error_def call_def q_default_norm
        world_two_def env_redis_flaky_def ids_key_def Let_def)
  show ?thesis
    by (simp add: b c q_default_norm list_rooms_A_without_cache [OF down db])
qed

text \<open>Claim C4 at a failing input (split-cache variant). With Redis unreachable, a creation
  whose store write succeeds (the room is in the store afterwards) is answered 500, after
  the rejected \<^verbatim>\<open>connect\<close> or, when the connection is still handed out, after the rejected
  \<^verbatim>\<open>SET\<close>: the calls of lines 549-552 have no handler of their own. The aggregate-cache variant
  answers the same request 201.\<close>

theorem c4_creation_fails_after_store_write:
  "fst (create_room_B env_redis_down ''u2'' body_gamma world_one) = ServerError
   \<and> status ServerError = 500
   \<and> map room_id (rooms world_one) = [''r1'']
   \<and> map room_id (rooms (snd (create_room_B env_redis_down ''u2'' body_gamma world_one)))
        = [''r1'', ''r9'']
   \<and> trace (snd (create_room_B env_redis_down ''u2'' body_gamma world_one))
        = [Db (DSave ''r9''), Db (DFindById ''r9''), Redis RConnect, LogError RoomCreateFailed]
   \<and> fst (create_room_B env_redis_flaky ''u2'' body_gamma world_one) = ServerError
   \<and> trace (snd (create_room_B env_redis_flaky ''u2'' body_gamma world_one))
        = [Db (DSave ''r9''), Db (DFindById ''r9''), Redis RConnect,
           Redis (RSet ''chat:room:r9'' 3600), LogError RoomCreateFailed]
   \<and> status (fst (create_room_A env_redis_down ''u2'' body_gamma world_one)) = 201"
  by code_simp

lemma world_two_fields:
  "rooms world_two = [room_alpha, room_beta]" "users world_two = [alice, bob]"
  "details world_two = Map.empty" "trace world_two = []"
  "ids_index world_two = [(''r1'', 1000), (''r2'', 2000)]"
  by (simp_all add: world_two_def)

lemma two_window: "zrevrange [(''r1'', 1000), (''r2'', 2000)] 0 9 = [''r2'', ''r1'']"
  by (simp add: zrevrange_def zrev_members_def sort_by_def zrev_le_def)

lemma two_store:
  "find_lean env_ok ''r1'' world_two = Some alpha_lean"
  "find_lean env_ok ''r2'' world_two = Some beta_lean"
  by (simp_all add: find_lean_def find_room_def world_two_fields room_alpha_def
      room_beta_def alpha_lean_def beta_lean_def env_ok_def default_projection_def
      populate_creator_def map_participants_def find_user_def alice_def bob_def)

lemma keys_two:
  "detail_key ''r1'' = ''chat:room:r1''" "detail_key ''r2'' = ''chat:room:r2''"
  "ids_key = ''chat:rooms:ids''"
  by (simp_all add: detail_key_def ids_key_def)

lemma by_name_through_index:
  "list_rooms_B env_ok ''u1'' q_by_name world_two =
     (ListB \<lparr>rows = [beta_lean, alpha_lean],
             metadata = page_meta_of 2 0 10 2 ''createdAt'' ''desc''\<rparr>,
      world_two\<lparr>details := [''chat:room:r2'' \<mapsto> (beta_lean, 3600),
                             ''chat:room:r1'' \<mapsto> (alpha_lean, 3600)],
        trace := [Redis RConnect, Redis (RZRevRange ''chat:rooms:ids'' 0 9),
           Redis (RGet ''chat:room:r2''), Redis (RGet ''chat:room:r1''),
           Db (DFindById ''r2''), Redis (RSet ''chat:room:r2'' 3600),
           Db (DFindById ''r1''), Redis (RSet ''chat:room:r1'' 3600),
           Redis (RZCard ''chat:rooms:ids'')]\<rparr>)"
  using list_from_index_no_faults [of env_ok 0 10 world_two] env_ok_no_faults
  by (simp add: list_rooms_B_def q_by_name_norm world_two_fields two_window two_store keys_two
      zcard_def List.map_filter_simps Let_def)

lemma by_name_search_through_store:
  "list_rooms_B env_ok ''u1'' q_search_a world_two =
     (ListB \<lparr>rows = [beta_lean, alpha_lean],
             metadata = page_meta_of 2 0 10 2 ''createdAt'' ''desc''\<rparr>,
      world_two\<lparr>trace := [Db (DCount ''A''), Db (DFind ''A'' 0 10)]\<rparr>)"
proof -
  have n: "norm_page q_search_a = 0" "norm_pageSize q_search_a = 10" "norm_search q_search_a = ''A''"
    by (simp_all add: q_search_a_def norm_page_def norm_pageSize_def norm_search_def
        parse_or_def str_or_empty_def)
  have m: "matching ''A'' [room_alpha, room_beta] = [room_alpha, room_beta]"
    by code_simp
  have s: "sort_stage ''createdAt'' ''desc'' [room_alpha, room_beta] = [room_beta, room_alpha]"
    by (simp add: sort_stage_def sort_by_def room_alpha_def room_beta_def)
  have p: "map_participants Unpopulated
             (default_projection (hide_password env_ok) (populate_creator [alice, bob] room_beta))
           = beta_lean"
     "map_participants Unpopulated
             (default_projection (hide_password env_ok) (populate_creator [alice, bob] room_alpha))
           = alpha_lean"
    by (simp_all add: room_alpha_def room_beta_def alpha_lean_def beta_lean_def env_ok_def
        default_projection_def populate_creator_def map_participants_def find_user_def
        alice_def bob_def)
  have f: "db_fails env_ok c = False" for c
    by (simp add: env_ok_def)
  show ?thesis
    by (simp add: list_rooms_B_def list_from_store_def n world_two_fields call_def
        aggregate_rooms_def m s p f Let_def)
qed

lemma by_name_aggregate:
  "listed_names (fst (list_rooms_A env_ok ''u1'' q_by_name world_two)) = [''alpha'', ''beta'']"
proof -
  have "pages world_two name_key = None"
    by (simp add: world_two_def)
  note run = list_rooms_A_miss [OF q_by_name_key [symmetric] env_ok_no_faults [THEN conjunct1]
      env_ok_no_faults [THEN conjunct2] this, of "''u1''"]
  have s: "sort_stage ''name'' ''asc'' [room_alpha, room_beta] = [room_alpha, room_beta]"
    by code_simp
  have "map s_name (rows (compute_page_A ''u1'' q_by_name world_two))
      = map (\<lambda>r. s_name (safe_room ''u1'' [alice, bob] r)) [room_alpha, room_beta]"
    by (simp add: compute_page_A_def q_by_name_norm world_two_fields matching_def
        aggregate_rooms_def s Let_def)
  also have "\<dots> = [''alpha'', ''beta'']"
    by (simp add: safe_room_def room_alpha_def room_beta_def or_str_def Let_def)
  finally show ?thesis
    using run by simp
qed

text \<open>Claim C7 at two failing inputs (split-cache variant). A request for the rooms by
  name, ascending, with no search term is served through the sorted index, newest room
  first, and echoes the sort \<open>createdAt\<close>, \<open>desc\<close>; the same request with the search term
  \<open>A\<close> goes to the store, which sorts by creation time (line 495), and neither reads nor
  writes a page of the aggregate cache. The aggregate-cache variant answers the first
  request in the order of the names.\<close>

theorem c7_split_listing_ignores_sort:
  "norm_sortField q_by_name = ''name'' \<and> norm_sortOrder q_by_name = ''asc''
   \<and> norm_search q_by_name = []
   \<and> listed_names (fst (list_rooms_B env_ok ''u1'' q_by_name world_two)) = [''beta'', ''alpha'']
   \<and> echoed_sort (fst (list_rooms_B env_ok ''u1'' q_by_name world_two))
        = Some (''createdAt'', ''desc'')
   \<and> trace (snd (list_rooms_B env_ok ''u1'' q_by_name world_two))
        = [Redis RConnect, Redis (RZRevRange ''chat:rooms:ids'' 0 9),
           Redis (RGet ''chat:room:r2''), Redis (RGet ''chat:room:r1''),
           Db (DFindById ''r2''), Redis (RSet ''chat:room:r2'' 3600),
           Db (DFindById ''r1''), Redis (RSet ''chat:room:r1'' 3600),
           Redis (RZCard ''chat:rooms:ids'')]
   \<and> norm_search q_search_a = ''A''
   \<and> listed_names (fst (list_rooms_B env_ok ''u1'' q_search_a world_two)) = [''beta'', ''alpha'']
   \<and> trace (snd (list_rooms_B env_ok ''u1'' q_search_a world_two))
        = [Db (DCount ''A''), Db (DFind ''A'' 0 10)]
   \<and> listed_names (fst (list_rooms_A env_ok ''u1'' q_by_name world_two)) = [''alpha'', ''beta'']"
proof -
  have n: "norm_search q_search_a = ''A''"
    by (simp add: q_search_a_def norm_search_def str_or_empty_def)
  show ?thesis
    by (simp add: q_by_name_norm n by_name_through_index by_name_search_through_store
        by_name_aggregate page_meta_of_def beta_lean_def alpha_lean_def)
qed

end
